theory Spec2Isabelle
  imports Main
begin

section \<open>JSON values as the parser receives them\<close>

text \<open>
  The parser works on the result of \<^verbatim>\<open>JSON.parse\<close>: null, booleans, numbers, strings,
  arrays and objects. An object is an association list (the first binding of a key is the
  one a property read returns); a property that is absent reads as \<^verbatim>\<open>undefined\<close>, which is
  \<open>None\<close> here. Numbers are integers: the code embedded below only tests them for
  truthiness.
\<close>

datatype json =
    JNull
  | JBool bool
  | JNum int
  | JStr string
  | JArr "json list"
  | JObj "(string \<times> json) list"

text \<open>\<^verbatim>\<open>json[name]\<close> for a name that no array, string, number or boolean carries
  (\<^verbatim>\<open>"type"\<close>, \<^verbatim>\<open>"fallback"\<close>, \<^verbatim>\<open>"items"\<close>, ...).\<close>

fun getProp :: "json \<Rightarrow> string \<Rightarrow> json option" where
  "getProp (JObj kvs) name = map_of kvs name"
| "getProp _ name = None"

text \<open>JavaScript truthiness of a value (\<^verbatim>\<open>if (json)\<close>, \<^verbatim>\<open>!fallback\<close>).\<close>

fun truthy :: "json \<Rightarrow> bool" where
  "truthy JNull = False"
| "truthy (JBool b) = b"
| "truthy (JNum n) = (n \<noteq> 0)"
| "truthy (JStr s) = (s \<noteq> [])"
| "truthy (JArr _) = True"
| "truthy (JObj _) = True"

text \<open>\<^verbatim>\<open>typeof v === "object"\<close>: true of null, arrays and objects.\<close>

fun typeofObject :: "json \<Rightarrow> bool" where
  "typeofObject JNull = True"
| "typeofObject (JArr _) = True"
| "typeofObject (JObj _) = True"
| "typeofObject _ = False"

text \<open>\<^verbatim>\<open>typeof v === "string"\<close>.\<close>

fun typeofString :: "json \<Rightarrow> bool" where
  "typeofString (JStr _) = True"
| "typeofString _ = False"

text \<open>\<^verbatim>\<open>Array.isArray(v)\<close> on a property read, giving the elements.\<close>

fun arrayItems :: "json option \<Rightarrow> json list option" where
  "arrayItems (Some (JArr xs)) = Some xs"
| "arrayItems _ = None"

text \<open>\<^verbatim>\<open>String.prototype.toLowerCase\<close> on the ASCII letters.\<close>

definition lowerChar :: "char \<Rightarrow> char" where
  "lowerChar c =
     (if (65::nat) \<le> of_char c \<and> of_char c \<le> (90::nat)
      then char_of (of_char c + (32::nat)) else c)"

definition toLowerCase :: "string \<Rightarrow> string" where
  "toLowerCase s = map lowerChar s"

text \<open>Modelled from the spec: \<^verbatim>\<open>Utils.getStringValue\<close> and \<^verbatim>\<open>Utils.isNullOrEmpty\<close>
  (utils.ts is not part of the sources). The spec's step 1 of the instantiation algorithm
  reads "has no type string": the value is used when it is a string, and is absent
  otherwise.\<close>

fun getStringValue :: "json option \<Rightarrow> string option" where
  "getStringValue (Some (JStr s)) = Some s"
| "getStringValue _ = None"

fun isNullOrEmpty :: "string option \<Rightarrow> bool" where
  "isNullOrEmpty None = True"
| "isNullOrEmpty (Some s) = (s = [])"

section \<open>Versions and validation errors\<close>

text \<open>Modelled from the spec: the version type of shared.ts (major.minor with a validity
  flag) and the target version of a registration, which is a version or \<^verbatim>\<open>"*"\<close>.\<close>

record version =
  major :: nat
  minor :: nat
  isValid :: bool

datatype targetVersion = AnyVersion | AtVersion version

text \<open>Modelled from the spec: the error taxonomy of section 7 (enums.ts is not part of
  the sources).\<close>

datatype ValidationError =
    UnknownElementType
  | UnknownActionType
  | ElementTypeNotAllowed
  | ActionTypeNotAllowed
  | InvalidPropertyValue
  | PropertyCantBeNull
  | DuplicateId
  | CollectionCantBeEmpty
  | TooManyActions
  | InteractivityNotAllowed
  | MissingCardType
  | UnsupportedCardVersion
  | Hint

record IValidationError =
  error :: ValidationError
  message :: string

text \<open>The error sink: an array the caller supplies, or \<^verbatim>\<open>undefined\<close>.\<close>

type_synonym errorSink = "IValidationError list option"

text \<open>\<^verbatim>\<open>raiseParseError\<close>. The global hook \<^verbatim>\<open>AdaptiveCard.onParseError\<close> is a callback
  of the host application and is left out.\<close>

definition raiseParseError :: "IValidationError \<Rightarrow> errorSink \<Rightarrow> errorSink" where
  "raiseParseError err errors =
     (case errors of None \<Rightarrow> None | Some es \<Rightarrow> Some (es @ [err]))"

text \<open>What a \<^verbatim>\<open>throw\<close> carries: an \<^verbatim>\<open>Error\<close> of the program with its message, or the
  \<^verbatim>\<open>TypeError\<close> that the runtime raises when a value that is not a function is called.\<close>

datatype exn = Error string | TypeError

section \<open>Type registries\<close>

record 'a ITypeRegistration =
  typeName :: string
  schemaVersion :: targetVersion
  createInstance :: "unit \<Rightarrow> 'a"

text \<open>The state of a registry is its \<^verbatim>\<open>_items\<close> array.\<close>

type_synonym 'a TypeRegistry = "'a ITypeRegistration list"

fun findTypeRegistration :: "'a TypeRegistry \<Rightarrow> string \<Rightarrow> 'a ITypeRegistration option" where
  "findTypeRegistration [] name = None"
| "findTypeRegistration (item # items) name =
     (if typeName item = name then Some item else findTypeRegistration items name)"

definition clear :: "'a TypeRegistry" where
  "clear = []"

text \<open>The registration found is mutated in place, so the array keeps its length and
  order; only the factory of the first entry with that name changes.\<close>

fun setCreateInstance :: "'a TypeRegistry \<Rightarrow> string \<Rightarrow> (unit \<Rightarrow> 'a) \<Rightarrow> 'a TypeRegistry" where
  "setCreateInstance [] name f = []"
| "setCreateInstance (item # items) name f =
     (if typeName item = name then item\<lparr>createInstance := f\<rparr> # items
      else item # setCreateInstance items name f)"

definition registerType ::
  "'a TypeRegistry \<Rightarrow> string \<Rightarrow> (unit \<Rightarrow> 'a) \<Rightarrow> targetVersion \<Rightarrow> 'a TypeRegistry" where
  "registerType items name f sv =
     (case findTypeRegistration items name of
        Some registrationInfo \<Rightarrow> setCreateInstance items name f
      | None \<Rightarrow> items @ [\<lparr>typeName = name, schemaVersion = sv, createInstance = f\<rparr>])"

fun unregisterType :: "'a TypeRegistry \<Rightarrow> string \<Rightarrow> 'a TypeRegistry" where
  "unregisterType [] name = []"
| "unregisterType (item # items) name =
     (if typeName item = name then items else item # unregisterType items name)"

definition TypeRegistry_createInstance :: "'a TypeRegistry \<Rightarrow> string \<Rightarrow> 'a option" where
  "TypeRegistry_createInstance items name =
     (case findTypeRegistration items name of
        Some registrationInfo \<Rightarrow> Some (createInstance registrationInfo ())
      | None \<Rightarrow> None)"

definition getItemCount :: "'a TypeRegistry \<Rightarrow> nat" where
  "getItemCount items = length items"

text \<open>A history of calls on a registry, and the registry it leaves behind.\<close>

datatype 'a registryCall =
    RegisterType string "unit \<Rightarrow> 'a" targetVersion
  | UnregisterType string

fun applyCall :: "'a TypeRegistry \<Rightarrow> 'a registryCall \<Rightarrow> 'a TypeRegistry" where
  "applyCall items (RegisterType name f sv) = registerType items name f sv"
| "applyCall items (UnregisterType name) = unregisterType items name"

definition applyCalls :: "'a TypeRegistry \<Rightarrow> 'a registryCall list \<Rightarrow> 'a TypeRegistry" where
  "applyCalls items calls = foldl applyCall items calls"

text \<open>What the claim expects of that history, in its own words: a name is bound to the
  factory most recently registered for it, and to nothing once it is unregistered.\<close>

fun recordCall :: "(string \<rightharpoonup> (unit \<Rightarrow> 'a)) \<Rightarrow> 'a registryCall \<Rightarrow> (string \<rightharpoonup> (unit \<Rightarrow> 'a))" where
  "recordCall m (RegisterType name f sv) = m(name \<mapsto> f)"
| "recordCall m (UnregisterType name) = m(name := None)"

definition latestFactory :: "'a registryCall list \<Rightarrow> (string \<rightharpoonup> (unit \<Rightarrow> 'a))" where
  "latestFactory calls = foldl recordCall Map.empty calls"

text \<open>The name-to-factory view of a registry's array.\<close>

definition factoryOf :: "'a TypeRegistry \<Rightarrow> (string \<rightharpoonup> (unit \<Rightarrow> 'a))" where
  "factoryOf items name = map_option createInstance (findTypeRegistration items name)"

section \<open>Host capabilities\<close>

text \<open>Modelled from the spec: the capability set of host-capabilities.ts (section 6: "are
  all of {required capability: min version} met by {host capability: version}?"). A set is
  a list of named versions; a requirement is met when the host lists the capability at the
  required version or a later one, by major then minor.\<close>

type_synonym HostCapabilities = "(string \<times> version) list"

definition versionAtMost :: "version \<Rightarrow> version \<Rightarrow> bool" where
  "versionAtMost a b = (major a < major b \<or> (major a = major b \<and> minor a \<le> minor b))"

definition hasCapability :: "HostCapabilities \<Rightarrow> string \<Rightarrow> version \<Rightarrow> bool" where
  "hasCapability host name v =
     (case map_of host name of None \<Rightarrow> False | Some hv \<Rightarrow> versionAtMost v hv)"

definition areAllMet :: "HostCapabilities \<Rightarrow> HostCapabilities \<Rightarrow> bool" where
  "areAllMet required host = list_all (\<lambda>(name, v). hasCapability host name v) required"

section \<open>Polymorphic instantiation\<close>

datatype InstanceCreationErrorType = UnknownType | ForbiddenType

text \<open>
  What \<^verbatim>\<open>createCardObjectInstance\<close> and the parse methods read or write of the parent
  element they are handed: its \<^verbatim>\<open>_shouldFallback\<close> field (written by
  \<^verbatim>\<open>parent.setShouldFallback(true)\<close>), and the values of \<^verbatim>\<open>parent.isDesignMode()\<close> and
  \<^verbatim>\<open>parent.hostConfig.hostCapabilities\<close>, which a child resolves through its parent chain.
  \<^verbatim>\<open>undefined\<close> for the parent is \<open>None\<close>.
\<close>

record parentRef =
  parentShouldFallback :: bool
  parentDesignMode :: bool
  parentHostCapabilities :: HostCapabilities

definition setShouldFallback :: "bool \<Rightarrow> parentRef \<Rightarrow> parentRef" where
  "setShouldFallback v p = p\<lparr>parentShouldFallback := v\<rparr>"

text \<open>\<^verbatim>\<open>typeof fallback === "string" && fallback.toLowerCase() === "drop"\<close>.\<close>

fun isDropString :: "json option \<Rightarrow> bool" where
  "isDropString (Some (JStr s)) = (toLowerCase s = ''drop'')"
| "isDropString _ = False"

text \<open>\<^verbatim>\<open>!fallback\<close> on a property read.\<close>

fun falsy :: "json option \<Rightarrow> bool" where
  "falsy None = True"
| "falsy (Some v) = (\<not> truthy v)"

text \<open>
  The first half of the body of \<^verbatim>\<open>createCardObjectInstance\<close>, for a type name that is
  not forbidden: the registry lookup, and for an instance \<^verbatim>\<open>setParent\<close>, \<^verbatim>\<open>parse\<close> and
  \<^verbatim>\<open>shouldFallback\<close>. It yields \<^verbatim>\<open>result\<close>, \<^verbatim>\<open>tryToFallback\<close> and the error sink. The two
  virtual methods of the instance are the parameters \<open>parseMethod\<close> (which sets the
  parent, parses, and may throw) and \<open>shouldFallbackMethod\<close>.
\<close>

definition instantiateAndParse ::
  "('obj \<Rightarrow> parentRef option \<Rightarrow> json \<Rightarrow> errorSink \<Rightarrow> exn + ('obj \<times> errorSink)) \<Rightarrow>
   ('obj \<Rightarrow> parentRef option \<Rightarrow> bool) \<Rightarrow>
   parentRef option \<Rightarrow> json \<Rightarrow> string \<Rightarrow> bool \<Rightarrow>
   (string \<Rightarrow> 'obj option) \<Rightarrow>
   (string \<Rightarrow> InstanceCreationErrorType \<Rightarrow> IValidationError) \<Rightarrow>
   errorSink \<Rightarrow> exn + ('obj option \<times> bool \<times> errorSink)" where
  "instantiateAndParse parseMethod shouldFallbackMethod parent json name allowFallback
       createInstanceCallback createValidationErrorCallback errors =
     (case createInstanceCallback name of
        None \<Rightarrow>
          Inr (None, allowFallback,
               raiseParseError (createValidationErrorCallback name UnknownType) errors)
      | Some instance \<Rightarrow>
          (case parseMethod instance parent json errors of
             Inl e \<Rightarrow> Inl e
           | Inr (result, errors') \<Rightarrow>
               Inr (Some result, shouldFallbackMethod result parent \<and> allowFallback, errors')))"

text \<open>A property of an object is a smaller value than the object: the recursions below
  descend into property values.\<close>

lemma size_map_of: "map_of kvs k = Some v \<Longrightarrow> size v < size (JObj kvs)"
  by (induction kvs) (auto split: if_splits)

lemma size_getProp: "getProp j k = Some v \<Longrightarrow> size v < size j"
  by (cases j) (auto dest: size_map_of)

text \<open>
  \<^verbatim>\<open>createCardObjectInstance\<close>. The result is what the call returns, the parent as the
  call leaves it, and the error sink; \<open>Inl\<close> is an exception thrown out of a parse method.
  The recursion is on the value of the \<^verbatim>\<open>"fallback"\<close> key.
\<close>

function createCardObjectInstance ::
  "('obj \<Rightarrow> parentRef option \<Rightarrow> json \<Rightarrow> errorSink \<Rightarrow> exn + ('obj \<times> errorSink)) \<Rightarrow>
   ('obj \<Rightarrow> parentRef option \<Rightarrow> bool) \<Rightarrow>
   parentRef option \<Rightarrow> json \<Rightarrow> string list \<Rightarrow> bool \<Rightarrow>
   (string \<Rightarrow> 'obj option) \<Rightarrow>
   (string \<Rightarrow> InstanceCreationErrorType \<Rightarrow> IValidationError) \<Rightarrow>
   errorSink \<Rightarrow> exn + ('obj option \<times> parentRef option \<times> errorSink)" where
  "createCardObjectInstance parseMethod shouldFallbackMethod parent json forbiddenTypeNames
       allowFallback createInstanceCallback createValidationErrorCallback errors =
     (if truthy json \<and> typeofObject json then
        (case getStringValue (getProp json ''type'') of
           None \<Rightarrow> Inr (None, parent, errors)
         | Some name \<Rightarrow>
             if isNullOrEmpty (Some name) then Inr (None, parent, errors)
             else if name \<in> set forbiddenTypeNames then
               Inr (None, parent,
                    raiseParseError (createValidationErrorCallback name ForbiddenType) errors)
             else
               (case instantiateAndParse parseMethod shouldFallbackMethod parent json name
                       allowFallback createInstanceCallback createValidationErrorCallback errors of
                  Inl e \<Rightarrow> Inl e
                | Inr (result, tryToFallback, errors') \<Rightarrow>
                    if tryToFallback then
                      (let fallback = getProp json ''fallback'';
                           parent' = (if falsy fallback then map_option (setShouldFallback True) parent
                                      else parent)
                       in if isDropString fallback then Inr (None, parent', errors')
                          else
                            (case fallback of
                               None \<Rightarrow> Inr (result, parent', errors')
                             | Some fb \<Rightarrow>
                                 if typeofObject fb then
                                   createCardObjectInstance parseMethod shouldFallbackMethod
                                     parent' fb forbiddenTypeNames True
                                     createInstanceCallback createValidationErrorCallback errors'
                                 else Inr (result, parent', errors')))
                    else Inr (result, parent, errors')))
      else Inr (None, parent, errors))"
  by pat_completeness auto
termination
  by (relation "measure (\<lambda>(pm, sm, p, j, f, a, ci, ce, e). size j)")
     (auto dest: size_getProp [OF sym])

declare createCardObjectInstance.simps [simp del]

text \<open>The two error callbacks of \<^verbatim>\<open>createActionInstance\<close> and \<^verbatim>\<open>createElementInstance\<close>.\<close>

definition actionValidationError :: "string \<Rightarrow> InstanceCreationErrorType \<Rightarrow> IValidationError" where
  "actionValidationError name errorType =
     (if errorType = UnknownType then
        \<lparr>error = UnknownActionType,
         message = ''Unknown action type: '' @ name @ ''. Fallback will be used if present.''\<rparr>
      else
        \<lparr>error = ActionTypeNotAllowed,
         message = ''Action type '' @ name @ '' is not allowed in this context.''\<rparr>)"

definition elementValidationError :: "string \<Rightarrow> InstanceCreationErrorType \<Rightarrow> IValidationError" where
  "elementValidationError name errorType =
     (if errorType = UnknownType then
        \<lparr>error = UnknownElementType,
         message = ''Unknown element type: '' @ name @ ''. Fallback will be used if present.''\<rparr>
      else
        \<lparr>error = ElementTypeNotAllowed,
         message = ''Element type '' @ name @ '' is not allowed in this context.''\<rparr>)"

text \<open>The static registries \<^verbatim>\<open>AdaptiveCard.actionTypeRegistry\<close> and
  \<^verbatim>\<open>AdaptiveCard.elementTypeRegistry\<close> are parameters.\<close>

definition createActionInstance ::
  "('obj \<Rightarrow> parentRef option \<Rightarrow> json \<Rightarrow> errorSink \<Rightarrow> exn + ('obj \<times> errorSink)) \<Rightarrow>
   ('obj \<Rightarrow> parentRef option \<Rightarrow> bool) \<Rightarrow> 'obj TypeRegistry \<Rightarrow>
   parentRef \<Rightarrow> json \<Rightarrow> string list \<Rightarrow> bool \<Rightarrow> errorSink \<Rightarrow>
   exn + ('obj option \<times> parentRef option \<times> errorSink)" where
  "createActionInstance parseMethod shouldFallbackMethod actionTypeRegistry
       parent json forbiddenActionTypes allowFallback errors =
     createCardObjectInstance parseMethod shouldFallbackMethod
       (Some parent) json forbiddenActionTypes allowFallback
       (\<lambda>name. TypeRegistry_createInstance actionTypeRegistry name)
       actionValidationError errors"

definition createElementInstance ::
  "('obj \<Rightarrow> parentRef option \<Rightarrow> json \<Rightarrow> errorSink \<Rightarrow> exn + ('obj \<times> errorSink)) \<Rightarrow>
   ('obj \<Rightarrow> parentRef option \<Rightarrow> bool) \<Rightarrow> 'obj TypeRegistry \<Rightarrow>
   parentRef option \<Rightarrow> json \<Rightarrow> bool \<Rightarrow> errorSink \<Rightarrow>
   exn + ('obj option \<times> parentRef option \<times> errorSink)" where
  "createElementInstance parseMethod shouldFallbackMethod elementTypeRegistry
       parent json allowFallback errors =
     createCardObjectInstance parseMethod shouldFallbackMethod
       parent json [] allowFallback
       (\<lambda>name. TypeRegistry_createInstance elementTypeRegistry name)
       elementValidationError errors"

text \<open>\<^verbatim>\<open>ActionPropertyDefinition.parse\<close>: the property named \<open>name\<close> of the bag
  \<open>source\<close>, with the forbidden action types the definition was constructed with.\<close>

definition ActionPropertyDefinition_parse ::
  "('obj \<Rightarrow> parentRef option \<Rightarrow> json \<Rightarrow> errorSink \<Rightarrow> exn + ('obj \<times> errorSink)) \<Rightarrow>
   ('obj \<Rightarrow> parentRef option \<Rightarrow> bool) \<Rightarrow> 'obj TypeRegistry \<Rightarrow>
   string \<Rightarrow> string list \<Rightarrow> parentRef \<Rightarrow> (string \<times> json) list \<Rightarrow> errorSink \<Rightarrow>
   exn + ('obj option \<times> parentRef option \<times> errorSink)" where
  "ActionPropertyDefinition_parse parseMethod shouldFallbackMethod actionTypeRegistry
       name forbiddenActionTypes sender source errors =
     (case map_of source name of
        None \<Rightarrow> Inr (None, Some sender, errors)
      | Some v \<Rightarrow>
          createActionInstance parseMethod shouldFallbackMethod actionTypeRegistry
            sender v forbiddenActionTypes (parentDesignMode sender) errors)"


section \<open>Card objects\<close>

text \<open>
  The classes of card objects: the sixteen element classes that
  \<^verbatim>\<open>ElementTypeRegistry.reset\<close> registers, \<^verbatim>\<open>Column\<close> (instantiated by \<^verbatim>\<open>ColumnSet\<close>),
  \<^verbatim>\<open>AdaptiveCard\<close> and \<^verbatim>\<open>InlineAdaptiveCard\<close>, and the action classes. \<open>Container ts\<close> is
  class \<^verbatim>\<open>Container\<close>, or a subclass of it defined by the host application whose
  \<^verbatim>\<open>getForbiddenElementTypes()\<close> returns \<open>ts\<close>; the class of the source is \<open>Container []\<close>.
\<close>

datatype cardClass =
    TextBlock
  | TextRun
  | RichTextBlock
  | FactSet
  | Image
  | ImageSet
  | Media
  | TextInput
  | ToggleInput
  | ChoiceSetInput
  | NumberInput
  | DateInput
  | TimeInput
  | ActionSet
  | Container "string list"
  | Column
  | ColumnSet
  | AdaptiveCard
  | InlineAdaptiveCard
  | SubmitAction
  | OpenUrlAction
  | ToggleVisibilityAction
  | HttpAction
  | ShowCardAction

fun getJsonTypeName :: "cardClass \<Rightarrow> string" where
  "getJsonTypeName TextBlock = ''TextBlock''"
| "getJsonTypeName TextRun = ''TextRun''"
| "getJsonTypeName RichTextBlock = ''RichTextBlock''"
| "getJsonTypeName FactSet = ''FactSet''"
| "getJsonTypeName Image = ''Image''"
| "getJsonTypeName ImageSet = ''ImageSet''"
| "getJsonTypeName Media = ''Media''"
| "getJsonTypeName TextInput = ''Input.Text''"
| "getJsonTypeName ToggleInput = ''Input.Toggle''"
| "getJsonTypeName ChoiceSetInput = ''Input.ChoiceSet''"
| "getJsonTypeName NumberInput = ''Input.Number''"
| "getJsonTypeName DateInput = ''Input.Date''"
| "getJsonTypeName TimeInput = ''Input.Time''"
| "getJsonTypeName ActionSet = ''ActionSet''"
| "getJsonTypeName (Container ts) = ''Container''"
| "getJsonTypeName Column = ''Column''"
| "getJsonTypeName ColumnSet = ''ColumnSet''"
| "getJsonTypeName AdaptiveCard = ''AdaptiveCard''"
| "getJsonTypeName InlineAdaptiveCard = ''AdaptiveCard''"
| "getJsonTypeName SubmitAction = ''Action.Submit''"
| "getJsonTypeName OpenUrlAction = ''Action.OpenUrl''"
| "getJsonTypeName ToggleVisibilityAction = ''Action.ToggleVisibility''"
| "getJsonTypeName HttpAction = ''Action.Http''"
| "getJsonTypeName ShowCardAction = ''Action.ShowCard''"

text \<open>The class hierarchy: which classes extend \<^verbatim>\<open>Input\<close>, \<^verbatim>\<open>CardElementContainer\<close>,
  \<^verbatim>\<open>StylableCardElementContainer\<close>, \<^verbatim>\<open>Container\<close> and \<^verbatim>\<open>AdaptiveCard\<close>.\<close>

definition isInput :: "cardClass \<Rightarrow> bool" where
  "isInput c = (c \<in> {TextInput, ToggleInput, ChoiceSetInput, NumberInput, DateInput, TimeInput})"

definition isAdaptiveCard :: "cardClass \<Rightarrow> bool" where
  "isAdaptiveCard c = (c = AdaptiveCard \<or> c = InlineAdaptiveCard)"

fun isContainer :: "cardClass \<Rightarrow> bool" where
  "isContainer (Container ts) = True"
| "isContainer Column = True"
| "isContainer AdaptiveCard = True"
| "isContainer InlineAdaptiveCard = True"
| "isContainer _ = False"

definition isStylableCardElementContainer :: "cardClass \<Rightarrow> bool" where
  "isStylableCardElementContainer c = (isContainer c \<or> c = ColumnSet)"

definition isCardElementContainer :: "cardClass \<Rightarrow> bool" where
  "isCardElementContainer c = (isStylableCardElementContainer c \<or> c = ImageSet)"

text \<open>The getters that the classes override: \<^verbatim>\<open>isStandalone\<close> (false for \<^verbatim>\<open>TextRun\<close>,
  \<^verbatim>\<open>Column\<close> and \<^verbatim>\<open>ContainerWithActions\<close>), \<^verbatim>\<open>isInline\<close> (true for \<^verbatim>\<open>TextRun\<close>),
  \<^verbatim>\<open>isInteractive\<close> (true for \<^verbatim>\<open>Input\<close> and \<^verbatim>\<open>ActionSet\<close>), \<^verbatim>\<open>isSelectable\<close> (true for
  \<^verbatim>\<open>Container\<close> and \<^verbatim>\<open>ColumnSet\<close>) and \<^verbatim>\<open>bypassVersionCheck\<close> (true for
  \<^verbatim>\<open>InlineAdaptiveCard\<close>).\<close>

definition isStandalone :: "cardClass \<Rightarrow> bool" where
  "isStandalone c = (c \<noteq> TextRun \<and> c \<noteq> Column \<and> \<not> isAdaptiveCard c)"

definition isInline :: "cardClass \<Rightarrow> bool" where
  "isInline c = (c = TextRun)"

definition isInteractive :: "cardClass \<Rightarrow> bool" where
  "isInteractive c = (isInput c \<or> c = ActionSet)"

definition isSelectable :: "cardClass \<Rightarrow> bool" where
  "isSelectable c = (isContainer c \<or> c = ColumnSet)"

definition bypassVersionCheck :: "cardClass \<Rightarrow> bool" where
  "bypassVersionCheck c = (c = InlineAdaptiveCard)"

fun getForbiddenElementTypes :: "cardClass \<Rightarrow> string list" where
  "getForbiddenElementTypes (Container ts) = ts"
| "getForbiddenElementTypes _ = []"

text \<open>\<^verbatim>\<open>getForbiddenActionTypes()\<close> as \<^verbatim>\<open>isActionAllowed\<close> compares it with type names. It is
  empty for every class but \<^verbatim>\<open>InlineAdaptiveCard\<close>, where it holds the class object
  \<^verbatim>\<open>ShowCardAction\<close>, which no type name is strictly equal to.\<close>

definition getForbiddenActionTypes :: "cardClass \<Rightarrow> string list" where
  "getForbiddenActionTypes c = []"

text \<open>The property of the class's schema that holds an action, with the forbidden action
  types of its definition: \<^verbatim>\<open>selectAction\<close> of \<^verbatim>\<open>TextRun\<close>, \<^verbatim>\<open>Image\<close> and the selectable
  containers, \<^verbatim>\<open>inlineAction\<close> of \<^verbatim>\<open>TextInput\<close>.\<close>

definition actionProperty :: "cardClass \<Rightarrow> (string \<times> string list) option" where
  "actionProperty c =
     (if c = TextRun \<or> c = Image \<or> (isCardElementContainer c \<and> isSelectable c)
      then Some (''selectAction'', [''Action.ShowCard''])
      else if c = TextInput then Some (''inlineAction'', [''Action.ShowCard''])
      else None)"

text \<open>The width of a column as \<^verbatim>\<open>ColumnSet.internalValidateProperties\<close> tells it apart: a
  number, the string \<^verbatim>\<open>"stretch"\<close>, the string \<^verbatim>\<open>"auto"\<close>, or a \<^verbatim>\<open>SizeAndUnit\<close> object.\<close>

datatype ColumnWidth = NumberWidth | StretchWidth | AutoWidth | SizeAndUnitWidth

text \<open>
  The fields of a card object that hold no other card object: the stored values of the
  \<^verbatim>\<open>type\<close>, \<^verbatim>\<open>id\<close> and \<^verbatim>\<open>requires\<close> properties, the private \<^verbatim>\<open>_shouldFallback\<close> field, and
  the values that one class or another reads in validation: \<^verbatim>\<open>version\<close> and \<^verbatim>\<open>designMode\<close>
  of a card, the explicit \<^verbatim>\<open>style\<close> of a stylable container, \<^verbatim>\<open>url\<close> of an
  \<^verbatim>\<open>OpenUrlAction\<close> or \<^verbatim>\<open>HttpAction\<close>, the title and value of each choice of a
  \<^verbatim>\<open>ChoiceSetInput\<close>, the name of each header of an \<^verbatim>\<open>HttpAction\<close>, and \<^verbatim>\<open>width\<close> of a
  \<^verbatim>\<open>Column\<close>.
\<close>

record objProps =
  typeNameValue :: "string option"
  idValue :: "string option"
  requires :: HostCapabilities
  shouldFallbackFlag :: bool
  versionValue :: "version option"
  designMode :: bool
  styleValue :: "string option"
  urlValue :: "string option"
  choices :: "(string option \<times> string option) list"
  headerNames :: "string option list"
  width :: ColumnWidth

text \<open>
  A card object: its class, the fields above, and the card objects it owns: the children
  (\<^verbatim>\<open>Container._items\<close>, \<^verbatim>\<open>ColumnSet._columns\<close>, \<^verbatim>\<open>ImageSet._images\<close>,
  \<^verbatim>\<open>RichTextBlock._inlines\<close>), the action of its action property, the items of its action
  collection (\<^verbatim>\<open>ActionSet\<close>, \<^verbatim>\<open>ContainerWithActions\<close>), \<^verbatim>\<open>ShowCardAction.card\<close>, and
  \<^verbatim>\<open>AdaptiveCard._fallbackCard\<close>. A field that the class does not have is empty. The parent
  back-reference is the position in the tree.
\<close>

datatype CardObject = CardObject
  (cls: cardClass)
  (props: objProps)
  (elementItems: "CardObject list")
  (selectAction: "CardObject option")
  (actionItems: "CardObject list")
  (inlineCard: "CardObject option")
  (fallbackCard: "CardObject option")

text \<open>Field updates.\<close>

fun setProps :: "CardObject \<Rightarrow> objProps \<Rightarrow> CardObject" where
  "setProps (CardObject c p its sa acts ic fc) p' = CardObject c p' its sa acts ic fc"

fun setItems :: "CardObject \<Rightarrow> CardObject list \<Rightarrow> CardObject" where
  "setItems (CardObject c p its sa acts ic fc) its' = CardObject c p its' sa acts ic fc"

fun setSelectAction :: "CardObject \<Rightarrow> CardObject option \<Rightarrow> CardObject" where
  "setSelectAction (CardObject c p its sa acts ic fc) sa' = CardObject c p its sa' acts ic fc"

fun setActionItems :: "CardObject \<Rightarrow> CardObject list \<Rightarrow> CardObject" where
  "setActionItems (CardObject c p its sa acts ic fc) acts' = CardObject c p its sa acts' ic fc"

fun setInlineCard :: "CardObject \<Rightarrow> CardObject option \<Rightarrow> CardObject" where
  "setInlineCard (CardObject c p its sa acts ic fc) ic' = CardObject c p its sa acts ic' fc"

fun setFallbackCard :: "CardObject \<Rightarrow> CardObject option \<Rightarrow> CardObject" where
  "setFallbackCard (CardObject c p its sa acts ic fc) fc' = CardObject c p its sa acts ic fc'"

definition setShouldFallbackFlag :: "CardObject \<Rightarrow> bool \<Rightarrow> CardObject" where
  "setShouldFallbackFlag obj f = setProps obj ((props obj)\<lparr>shouldFallbackFlag := f\<rparr>)"

text \<open>Modelled from the spec: \<^verbatim>\<open>Versions.v1_0\<close> and \<^verbatim>\<open>Versions.v1_2\<close> of shared.ts.\<close>

definition v1_0 :: version where
  "v1_0 = \<lparr>major = 1, minor = 0, isValid = True\<rparr>"

definition v1_1 :: version where
  "v1_1 = \<lparr>major = 1, minor = 1, isValid = True\<rparr>"

definition v1_2 :: version where
  "v1_2 = \<lparr>major = 1, minor = 2, isValid = True\<rparr>"

text \<open>
  \<^verbatim>\<open>new C()\<close>. The \<^verbatim>\<open>type\<close> property starts as the class's JSON type name, \<^verbatim>\<open>version\<close>
  of a card as the default \<^verbatim>\<open>Versions.v1_0\<close> of its property definition, the width of a
  column as \<^verbatim>\<open>"stretch"\<close>, and a \<^verbatim>\<open>ShowCardAction\<close> holds a new \<^verbatim>\<open>InlineAdaptiveCard\<close>.
\<close>

definition defaultProps :: "cardClass \<Rightarrow> objProps" where
  "defaultProps c =
     \<lparr>typeNameValue = Some (getJsonTypeName c), idValue = None, requires = [],
      shouldFallbackFlag = False,
      versionValue = (if isAdaptiveCard c then Some v1_0 else None),
      designMode = False, styleValue = None, urlValue = None, choices = [], headerNames = [],
      width = StretchWidth\<rparr>"

definition newObject :: "cardClass \<Rightarrow> CardObject" where
  "newObject c =
     CardObject c (defaultProps c) [] None []
       (if c = ShowCardAction
        then Some (CardObject InlineAdaptiveCard (defaultProps InlineAdaptiveCard) [] None [] None None)
        else None)
       None"

text \<open>\<^verbatim>\<open>this.card\<close> of a \<^verbatim>\<open>ShowCardAction\<close>. The field is read-only and set by the
  constructor, so the action always holds a card; an empty field reads as that card.\<close>

definition theCard :: "CardObject \<Rightarrow> CardObject" where
  "theCard this =
     (case inlineCard this of
        None \<Rightarrow> CardObject InlineAdaptiveCard (defaultProps InlineAdaptiveCard) [] None [] None None
      | Some thisCard \<Rightarrow> thisCard)"

text \<open>\<^verbatim>\<open>CardObject.shouldFallback\<close>, given the capabilities of the host configuration the
  object resolves (\<^verbatim>\<open>this.hostConfig.hostCapabilities\<close>).\<close>

definition CardObject_shouldFallback :: "HostCapabilities \<Rightarrow> CardObject \<Rightarrow> bool" where
  "CardObject_shouldFallback hostCapabilities obj =
     (shouldFallbackFlag (props obj) \<or> \<not> areAllMet (requires (props obj)) hostCapabilities)"

text \<open>\<^verbatim>\<open>AdaptiveCard.isVersionSupported\<close>; \<^verbatim>\<open>Versions.latest\<close> of shared.ts is the
  parameter \<open>latest\<close>.\<close>

definition isVersionSupported :: "version \<Rightarrow> CardObject \<Rightarrow> bool" where
  "isVersionSupported latest thisCard =
     (if bypassVersionCheck (cls thisCard) then True
      else
        (let unsupportedVersion =
               (case versionValue (props thisCard) of
                  None \<Rightarrow> True
                | Some v \<Rightarrow>
                    \<not> isValid v \<or> major latest < major v \<or>
                    (major latest = major v \<and> minor latest < minor v))
         in \<not> unsupportedVersion))"

text \<open>\<^verbatim>\<open>AdaptiveCard.shouldFallback\<close>: the inherited \<^verbatim>\<open>CardObject.shouldFallback\<close>, or an
  unsupported version.\<close>

definition AdaptiveCard_shouldFallback :: "version \<Rightarrow> HostCapabilities \<Rightarrow> CardObject \<Rightarrow> bool" where
  "AdaptiveCard_shouldFallback latest hostCapabilities thisCard =
     (CardObject_shouldFallback hostCapabilities thisCard \<or> \<not> isVersionSupported latest thisCard)"

text \<open>\<^verbatim>\<open>obj.shouldFallback()\<close>: the method of the object's class.\<close>

definition shouldFallback :: "version \<Rightarrow> HostCapabilities \<Rightarrow> CardObject \<Rightarrow> bool" where
  "shouldFallback latest hostCapabilities obj =
     (if isAdaptiveCard (cls obj) then AdaptiveCard_shouldFallback latest hostCapabilities obj
      else CardObject_shouldFallback hostCapabilities obj)"

section \<open>The validation pass\<close>

text \<open>
  A validation failure refers to the failing card object by identity. In a tree that is
  the path from the object validated: the index of a child, the index of an action in the
  action collection, the action of the action property, and the card of a
  \<^verbatim>\<open>ShowCardAction\<close>.
\<close>

datatype step = ItemAt nat | ActionAt nat | SelectActionOf | CardOf

type_synonym objectRef = "step list"

record ValidationFailure =
  cardObject :: objectRef
  failureErrors :: "IValidationError list"

text \<open>\<^verbatim>\<open>allIds\<close> is a plain object: the map holds its own properties.\<close>

record ValidationResults =
  allIds :: "string \<rightharpoonup> nat"
  failures :: "ValidationFailure list"

definition newValidationResults :: ValidationResults where
  "newValidationResults = \<lparr>allIds = Map.empty, failures = []\<rparr>"

text \<open>\<^verbatim>\<open>addFailure\<close>: the error joins the first failure recorded for the object, or a new
  failure at the end.\<close>

fun addToFailures :: "ValidationFailure list \<Rightarrow> objectRef \<Rightarrow> IValidationError \<Rightarrow> ValidationFailure list" where
  "addToFailures [] obj err = [\<lparr>cardObject = obj, failureErrors = [err]\<rparr>]"
| "addToFailures (f # fs) obj err =
     (if cardObject f = obj then f\<lparr>failureErrors := failureErrors f @ [err]\<rparr> # fs
      else f # addToFailures fs obj err)"

definition addFailure :: "ValidationResults \<Rightarrow> objectRef \<Rightarrow> IValidationError \<Rightarrow> ValidationResults" where
  "addFailure context obj err = context\<lparr>failures := addToFailures (failures context) obj err\<rparr>"

text \<open>
  \<^verbatim>\<open>CardObject.internalValidateProperties\<close>: the duplicate-id check with the occurrence
  counter \<^verbatim>\<open>allIds\<close>. The counter is a plain object read through its own
  \<^verbatim>\<open>hasOwnProperty\<close>:
  \<^item> once the id \<^verbatim>\<open>"hasOwnProperty"\<close> has been counted, \<^verbatim>\<open>context.allIds.hasOwnProperty\<close> is
    the number stored for it, and the call in the check of the next non-empty id throws a
    \<^verbatim>\<open>TypeError\<close>;
  \<^item> the assignment \<^verbatim>\<open>context.allIds["__proto__"] = 1\<close> goes to the setter inherited from
    \<^verbatim>\<open>Object.prototype\<close>, which ignores a number, so the id \<^verbatim>\<open>"__proto__"\<close> never becomes
    an own property.
\<close>

definition CardObject_internalValidateProperties ::
  "string option \<Rightarrow> objectRef \<Rightarrow> ValidationResults \<Rightarrow> exn + ValidationResults" where
  "CardObject_internalValidateProperties ident this context =
     (case ident of
        None \<Rightarrow> Inr context
      | Some i \<Rightarrow>
          if isNullOrEmpty (Some i) then Inr context
          else if allIds context ''hasOwnProperty'' \<noteq> None then Inl TypeError
          else
            (case allIds context i of
               Some n \<Rightarrow>
                 (let context' =
                        (if n = 1 then
                           addFailure context this
                             \<lparr>error = DuplicateId, message = ''Duplicate Id: '' @ i\<rparr>
                         else context)
                  in Inr (context'\<lparr>allIds := (allIds context')(i \<mapsto> n + 1)\<rparr>))
             | None \<Rightarrow>
                 if i = ''__proto__'' then Inr context
                 else Inr (context\<lparr>allIds := (allIds context)(i \<mapsto> 1)\<rparr>)))"

text \<open>Modelled from the spec: the parts of the host configuration (host-config.ts) that
  validation and fallback read. \<open>maxActions = 0\<close> stands for a limit that is zero or not
  set: both are falsy in \<^verbatim>\<open>if (maxActions && ...)\<close>. \<open>containerStyles\<close> holds the names
  for which \<^verbatim>\<open>containerStyles.getStyleByName\<close> returns a definition.\<close>

record HostConfig =
  supportsInteractivity :: bool
  maxActions :: nat
  hostCapabilities :: HostCapabilities
  containerStyles :: "string list"

text \<open>\<^verbatim>\<open>CardElementContainer.isElementAllowed\<close>.\<close>

definition isElementAllowed :: "HostConfig \<Rightarrow> cardClass \<Rightarrow> string list \<Rightarrow> bool" where
  "isElementAllowed hostConfig element forbiddenElementTypes =
     (if \<not> supportsInteractivity hostConfig \<and> isInteractive element then False
      else getJsonTypeName element \<notin> set forbiddenElementTypes)"

text \<open>\<^verbatim>\<open>isActionAllowed\<close>.\<close>

definition isActionAllowed :: "cardClass \<Rightarrow> string list \<Rightarrow> bool" where
  "isActionAllowed action forbiddenActionTypes =
     (getJsonTypeName action \<notin> set forbiddenActionTypes)"

text \<open>A number in a message.\<close>

fun showDigits :: "nat \<Rightarrow> nat \<Rightarrow> string" where
  "showDigits 0 n = []"
| "showDigits (Suc fuel) n =
     (if n < 10 then [char_of (48 + n)]
      else showDigits fuel (n div 10) @ [char_of (48 + n mod 10)])"

definition showNat :: "nat \<Rightarrow> string" where
  "showNat n = showDigits (Suc n) n"

text \<open>\<^verbatim>\<open>!s\<close> for a string or \<^verbatim>\<open>undefined\<close>.\<close>

definition falsyString :: "string option \<Rightarrow> bool" where
  "falsyString s = (s = None \<or> s = Some [])"

text \<open>
  The checks that a class adds to the inherited validation, each a part of the body of
  its \<^verbatim>\<open>internalValidateProperties\<close> after the call of \<^verbatim>\<open>super\<close>: \<^verbatim>\<open>Input\<close>,
  \<^verbatim>\<open>ChoiceSetInput\<close>, \<^verbatim>\<open>OpenUrlAction\<close>, \<^verbatim>\<open>HttpAction\<close>, \<^verbatim>\<open>StylableCardElementContainer\<close>,
  \<^verbatim>\<open>ColumnSet\<close> and \<^verbatim>\<open>AdaptiveCard\<close>.
\<close>

definition Input_checks :: "objProps \<Rightarrow> objectRef \<Rightarrow> ValidationResults \<Rightarrow> ValidationResults" where
  "Input_checks p this context =
     (if isNullOrEmpty (idValue p) then
        addFailure context this
          \<lparr>error = PropertyCantBeNull, message = ''All inputs must have a unique Id''\<rparr>
      else context)"

fun ChoiceSetInput_choices ::
  "(string option \<times> string option) list \<Rightarrow> objectRef \<Rightarrow> ValidationResults \<Rightarrow> ValidationResults" where
  "ChoiceSetInput_choices [] this context = context"
| "ChoiceSetInput_choices ((title, val) # rest) this context =
     ChoiceSetInput_choices rest this
       (if falsyString title \<or> falsyString val then
          addFailure context this
            \<lparr>error = PropertyCantBeNull,
             message = ''All choices in an Input.ChoiceSet must have their title and value properties set.''\<rparr>
        else context)"

definition ChoiceSetInput_checks :: "objProps \<Rightarrow> objectRef \<Rightarrow> ValidationResults \<Rightarrow> ValidationResults" where
  "ChoiceSetInput_checks p this context =
     ChoiceSetInput_choices (choices p) this
       (if length (choices p) = 0 then
          addFailure context this
            \<lparr>error = CollectionCantBeEmpty,
             message = ''An Input.ChoiceSet must have at least one choice defined.''\<rparr>
        else context)"

definition OpenUrlAction_checks :: "objProps \<Rightarrow> objectRef \<Rightarrow> ValidationResults \<Rightarrow> ValidationResults" where
  "OpenUrlAction_checks p this context =
     (if isNullOrEmpty (urlValue p) then
        addFailure context this
          \<lparr>error = PropertyCantBeNull,
           message = ''An Action.OpenUrl must have its url property set.''\<rparr>
      else context)"

fun HttpAction_headers :: "string option list \<Rightarrow> objectRef \<Rightarrow> ValidationResults \<Rightarrow> ValidationResults" where
  "HttpAction_headers [] this context = context"
| "HttpAction_headers (name # rest) this context =
     HttpAction_headers rest this
       (if falsyString name then
          addFailure context this
            \<lparr>error = PropertyCantBeNull,
             message = ''All headers of an Action.Http must have their name and value properties set.''\<rparr>
        else context)"

definition HttpAction_checks :: "objProps \<Rightarrow> objectRef \<Rightarrow> ValidationResults \<Rightarrow> ValidationResults" where
  "HttpAction_checks p this context =
     HttpAction_headers (headerNames p) this
       (if isNullOrEmpty (urlValue p) then
          addFailure context this
            \<lparr>error = PropertyCantBeNull,
             message = ''An Action.Http must have its url property set.''\<rparr>
        else context)"

definition StylableCardElementContainer_checks ::
  "HostConfig \<Rightarrow> objProps \<Rightarrow> objectRef \<Rightarrow> ValidationResults \<Rightarrow> ValidationResults" where
  "StylableCardElementContainer_checks hostConfig p this context =
     (case styleValue p of
        None \<Rightarrow> context
      | Some explicitStyle \<Rightarrow>
          if explicitStyle \<notin> set (containerStyles hostConfig) then
            addFailure context this
              \<lparr>error = InvalidPropertyValue,
               message = ''Unknown container style: '' @ explicitStyle\<rparr>
          else context)"

definition ColumnSet_checks :: "CardObject list \<Rightarrow> objectRef \<Rightarrow> ValidationResults \<Rightarrow> ValidationResults" where
  "ColumnSet_checks columns this context =
     (let weightedColumns = length (filter (\<lambda>column. width (props column) = NumberWidth) columns);
          stretchedColumns = length (filter (\<lambda>column. width (props column) = StretchWidth) columns)
      in if weightedColumns > 0 \<and> stretchedColumns > 0 then
           addFailure context this
             \<lparr>error = Hint,
              message = ''It is not recommended to use weighted and stretched columns in the same ColumnSet, because in such a situation stretched columns will always get the minimum amount of space.''\<rparr>
         else context)"

text \<open>The checks of \<^verbatim>\<open>AdaptiveCard\<close>: the type discriminator and the version.
  \<^verbatim>\<open>Versions.latest\<close> and \<^verbatim>\<open>Version.toString\<close> of shared.ts are the parameters \<open>latest\<close>
  and \<open>versionToString\<close>.\<close>

definition AdaptiveCard_checks ::
  "version \<Rightarrow> (version \<Rightarrow> string) \<Rightarrow> CardObject \<Rightarrow> objectRef \<Rightarrow> ValidationResults \<Rightarrow> ValidationResults" where
  "AdaptiveCard_checks latest versionToString thisCard this context =
     (let context' =
            (if typeNameValue (props thisCard) \<noteq> Some ''AdaptiveCard'' then
               addFailure context this
                 \<lparr>error = MissingCardType,
                  message = ''Invalid or missing card type. Make sure the card's type property is set to \"AdaptiveCard\".''\<rparr>
             else context)
      in if \<not> bypassVersionCheck (cls thisCard) \<and> versionValue (props thisCard) = None then
           addFailure context' this
             \<lparr>error = PropertyCantBeNull, message = ''The version property must be specified.''\<rparr>
         else if \<not> isVersionSupported latest thisCard then
           addFailure context' this
             \<lparr>error = UnsupportedCardVersion,
              message = ''The specified card version ('' @
                        (case versionValue (props thisCard) of
                           None \<Rightarrow> ''undefined'' | Some v \<Rightarrow> versionToString v) @
                        '') is not supported. The maximum supported card version is '' @
                        versionToString latest\<rparr>
         else context')"

text \<open>The two checks of \<^verbatim>\<open>CardElementContainer.internalValidateProperties\<close> on an item,
  and those of \<^verbatim>\<open>ActionCollection.validateProperties\<close> on the collection and on an
  action, each attached to the owner.\<close>

definition itemChecks ::
  "HostConfig \<Rightarrow> cardClass \<Rightarrow> cardClass \<Rightarrow> objectRef \<Rightarrow> ValidationResults \<Rightarrow> ValidationResults" where
  "itemChecks hostConfig c item this context =
     (let context1 =
            (if \<not> supportsInteractivity hostConfig \<and> isInteractive item then
               addFailure context this
                 \<lparr>error = InteractivityNotAllowed, message = ''Interactivity is not allowed.''\<rparr>
             else context)
      in if \<not> isElementAllowed hostConfig item (getForbiddenElementTypes c) then
           addFailure context1 this
             \<lparr>error = InteractivityNotAllowed,
              message = ''Elements of type '' @ getJsonTypeName item @
                        '' are not allowed in this container.''\<rparr>
         else context1)"

definition actionCollectionChecks ::
  "HostConfig \<Rightarrow> nat \<Rightarrow> objectRef \<Rightarrow> ValidationResults \<Rightarrow> ValidationResults" where
  "actionCollectionChecks hostConfig count owner context =
     (let context1 =
            (if maxActions hostConfig \<noteq> 0 \<and> count > maxActions hostConfig then
               addFailure context owner
                 \<lparr>error = TooManyActions,
                  message = ''A maximum of '' @ showNat (maxActions hostConfig) @
                            '' actions are allowed.''\<rparr>
             else context)
      in if count > 0 \<and> \<not> supportsInteractivity hostConfig then
           addFailure context1 owner
             \<lparr>error = InteractivityNotAllowed, message = ''Interactivity is not allowed.''\<rparr>
         else context1)"

definition actionChecks ::
  "cardClass \<Rightarrow> cardClass \<Rightarrow> objectRef \<Rightarrow> ValidationResults \<Rightarrow> ValidationResults" where
  "actionChecks c item owner context =
     (if \<not> isActionAllowed item (getForbiddenActionTypes c) then
        addFailure context owner
          \<lparr>error = ActionTypeNotAllowed,
           message = ''Actions of type '' @ getJsonTypeName item @ '' are not allowe.''\<rparr>
      else context)"

text \<open>
  \<^verbatim>\<open>internalValidateProperties\<close> of a card object, by its class. Every class starts with
  the duplicate-id check of \<^verbatim>\<open>CardObject\<close>. Then:
  \<^item> an input runs the checks of \<^verbatim>\<open>Input\<close>, and a \<^verbatim>\<open>ChoiceSetInput\<close> those of its class;
  \<^item> an \<^verbatim>\<open>OpenUrlAction\<close> and an \<^verbatim>\<open>HttpAction\<close> run the checks of their class, and a
    \<^verbatim>\<open>ShowCardAction\<close> validates its card;
  \<^item> an \<^verbatim>\<open>ActionSet\<close> validates its action collection;
  \<^item> a \<^verbatim>\<open>CardElementContainer\<close> checks and validates each item, then validates
    \<^verbatim>\<open>_selectAction\<close> if it is set; a \<^verbatim>\<open>StylableCardElementContainer\<close> then checks its
    style, a \<^verbatim>\<open>ColumnSet\<close> then the widths of its columns, a \<^verbatim>\<open>ContainerWithActions\<close> then
    validates its action collection, and an \<^verbatim>\<open>AdaptiveCard\<close> then runs the checks of its
    class.

  \<^verbatim>\<open>RichTextBlock\<close>, \<^verbatim>\<open>Image\<close>, \<^verbatim>\<open>TextRun\<close> and \<^verbatim>\<open>TextInput\<close> do not override the method, so
  their inlines and actions are not visited. Every object resolves the host configuration
  \<open>hostConfig\<close>: no object of the tree has a host configuration of its own.
\<close>

fun internalValidateProperties ::
    "version \<Rightarrow> (version \<Rightarrow> string) \<Rightarrow> HostConfig \<Rightarrow> CardObject \<Rightarrow> objectRef \<Rightarrow>
     ValidationResults \<Rightarrow> exn + ValidationResults"
  and validateItems ::
    "version \<Rightarrow> (version \<Rightarrow> string) \<Rightarrow> HostConfig \<Rightarrow> cardClass \<Rightarrow> objectRef \<Rightarrow> nat \<Rightarrow>
     CardObject list \<Rightarrow> ValidationResults \<Rightarrow> exn + ValidationResults"
  and validateActions ::
    "version \<Rightarrow> (version \<Rightarrow> string) \<Rightarrow> HostConfig \<Rightarrow> cardClass \<Rightarrow> objectRef \<Rightarrow> nat \<Rightarrow>
     CardObject list \<Rightarrow> ValidationResults \<Rightarrow> exn + ValidationResults"
where
  "internalValidateProperties latest versionToString hostConfig (CardObject c p its sa acts ic fc)
       this context =
     (case CardObject_internalValidateProperties (idValue p) this context of
        Inl e \<Rightarrow> Inl e
      | Inr context0 \<Rightarrow>
          if isInput c then
            (let context1 = Input_checks p this context0
             in if c = ChoiceSetInput then Inr (ChoiceSetInput_checks p this context1)
                else Inr context1)
          else if c = OpenUrlAction then Inr (OpenUrlAction_checks p this context0)
          else if c = HttpAction then Inr (HttpAction_checks p this context0)
          else if c = ShowCardAction then
            (case ic of
               None \<Rightarrow> Inr context0
             | Some thisCard \<Rightarrow>
                 internalValidateProperties latest versionToString hostConfig thisCard
                   (this @ [CardOf]) context0)
          else if c = ActionSet then
            validateActions latest versionToString hostConfig c this 0 acts
              (actionCollectionChecks hostConfig (length acts) this context0)
          else if isCardElementContainer c then
            (case validateItems latest versionToString hostConfig c this 0 its context0 of
               Inl e \<Rightarrow> Inl e
             | Inr context1 \<Rightarrow>
                 (case (case sa of
                          None \<Rightarrow> Inr context1
                        | Some action \<Rightarrow>
                            internalValidateProperties latest versionToString hostConfig action
                              (this @ [SelectActionOf]) context1) of
                    Inl e \<Rightarrow> Inl e
                  | Inr context2 \<Rightarrow>
                      if \<not> isStylableCardElementContainer c then Inr context2
                      else
                        (let context3 = StylableCardElementContainer_checks hostConfig p this context2
                         in if c = ColumnSet then Inr (ColumnSet_checks its this context3)
                            else if isAdaptiveCard c then
                              (case validateActions latest versionToString hostConfig c this 0 acts
                                      (actionCollectionChecks hostConfig (length acts) this context3) of
                                 Inl e \<Rightarrow> Inl e
                               | Inr context4 \<Rightarrow>
                                   Inr (AdaptiveCard_checks latest versionToString
                                          (CardObject c p its sa acts ic fc) this context4))
                            else Inr context3)))
          else Inr context0)"
| "validateItems latest versionToString hostConfig c this i [] context = Inr context"
| "validateItems latest versionToString hostConfig c this i (item # rest) context =
     (case internalValidateProperties latest versionToString hostConfig item (this @ [ItemAt i])
             (itemChecks hostConfig c (cls item) this context) of
        Inl e \<Rightarrow> Inl e
      | Inr context' \<Rightarrow> validateItems latest versionToString hostConfig c this (i + 1) rest context')"
| "validateActions latest versionToString hostConfig c owner i [] context = Inr context"
| "validateActions latest versionToString hostConfig c owner i (item # rest) context =
     (case internalValidateProperties latest versionToString hostConfig item (owner @ [ActionAt i])
             (actionChecks c (cls item) owner context) of
        Inl e \<Rightarrow> Inl e
      | Inr context' \<Rightarrow> validateActions latest versionToString hostConfig c owner (i + 1) rest context')"

text \<open>\<^verbatim>\<open>validateProperties\<close>: a fresh context, and the object validated is the root.\<close>

definition validateProperties ::
  "version \<Rightarrow> (version \<Rightarrow> string) \<Rightarrow> HostConfig \<Rightarrow> CardObject \<Rightarrow> exn + ValidationResults" where
  "validateProperties latest versionToString hostConfig obj =
     internalValidateProperties latest versionToString hostConfig obj [] newValidationResults"

section \<open>Parsing the tree of card objects\<close>

text \<open>\<^verbatim>\<open>createCardObjectInstance\<close> calls the parse method it is given only on the fragment
  itself and on the fallback fragments nested in it. The parse methods below call it on
  the entries of a child array and hand themselves in, so the recursion descends.\<close>

lemma instantiateAndParse_cong:
  assumes "\<And>obj p e. pm obj p json e = pm' obj p json e"
  shows "instantiateAndParse pm sm parent json name allow ci ce errs =
         instantiateAndParse pm' sm parent json name allow ci ce errs"
  by (simp add: instantiateAndParse_def assms split: option.splits)

lemma createCardObjectInstance_cong_aux:
  "(\<And>obj p j e. size j \<le> size json \<Longrightarrow> pm obj p j e = pm' obj p j e) \<Longrightarrow>
   createCardObjectInstance pm sm parent json forbidden allow ci ce errs =
   createCardObjectInstance pm' sm parent json forbidden allow ci ce errs"
proof (induction pm sm parent json forbidden allow ci ce errs rule: createCardObjectInstance.induct)
  case (1 pm sm parent json forbidden allow ci ce errs)
  have ip: "instantiateAndParse pm sm parent json name allow ci ce errs =
            instantiateAndParse pm' sm parent json name allow ci ce errs" for name
    by (rule instantiateAndParse_cong) (simp add: "1.prems")
  have rec: "createCardObjectInstance pm sm p' fb forbidden True ci ce errs' =
             createCardObjectInstance pm' sm p' fb forbidden True ci ce errs'"
    if "truthy json" "typeofObject json"
       "getStringValue (getProp json ''type'') = Some name" "\<not> isNullOrEmpty (Some name)"
       "name \<notin> set forbidden"
       "instantiateAndParse pm sm parent json name allow ci ce errs = Inr (result, True, errs')"
       "getProp json ''fallback'' = Some fb" "\<not> isDropString (Some fb)" "typeofObject fb"
       "p' = (if falsy (Some fb) then map_option (setShouldFallback True) parent else parent)"
    for name result errs' fb p'
  proof -
    have "size fb < size json" using that(7) by (rule size_getProp)
    then have "\<And>obj p j e. size j \<le> size fb \<Longrightarrow> pm obj p j e = pm' obj p j e"
      using "1.prems" by simp
    with "1.IH" [of name "(result, True, errs')" result "(True, errs')" True errs' "Some fb" p' fb] that
    show ?thesis by (simp add: )
  qed
  show ?case
    apply (subst createCardObjectInstance.simps)
    apply (subst (2) createCardObjectInstance.simps)
    apply (simp add: ip Let_def split: option.splits sum.splits prod.splits)
    apply (auto intro: rec simp: ip)
    done
qed

lemma createCardObjectInstance_cong [fundef_cong]:
  assumes "parent = parent'" "json = json'" "forbidden = forbidden'" "allow = allow'"
    and "ci = ci'" "ce = ce'" "errs = errs'" "sm = sm'"
    and "\<And>obj p j e. size j \<le> size json' \<Longrightarrow> pm obj p j e = pm' obj p j e"
  shows "createCardObjectInstance pm sm parent json forbidden allow ci ce errs =
         createCardObjectInstance pm' sm' parent' json' forbidden' allow' ci' ce' errs'"
  using assms createCardObjectInstance_cong_aux [of json' pm pm'] by simp

lemma createElementInstance_cong [fundef_cong]:
  assumes "parent = parent'" "json = json'" "allow = allow'" "reg = reg'" "errs = errs'" "sm = sm'"
    and "\<And>obj p j e. size j \<le> size json' \<Longrightarrow> pm obj p j e = pm' obj p j e"
  shows "createElementInstance pm sm reg parent json allow errs =
         createElementInstance pm' sm' reg' parent' json' allow' errs'"
  unfolding createElementInstance_def
  using assms by (intro createCardObjectInstance_cong) simp_all

lemma createActionInstance_cong [fundef_cong]:
  assumes "parent = parent'" "json = json'" "forbidden = forbidden'" "allow = allow'"
    and "reg = reg'" "errs = errs'" "sm = sm'"
    and "\<And>obj p j e. size j \<le> size json' \<Longrightarrow> pm obj p j e = pm' obj p j e"
  shows "createActionInstance pm sm reg parent json forbidden allow errs =
         createActionInstance pm' sm' reg' parent' json' forbidden' allow' errs'"
  unfolding createActionInstance_def
  using assms by (intro createCardObjectInstance_cong) simp_all

text \<open>The global state and the collaborators that parsing reads: the two static
  registries, the capabilities of \<^verbatim>\<open>defaultHostConfig\<close>, \<^verbatim>\<open>Versions.latest\<close>, and
  \<^verbatim>\<open>Version.parse\<close> of shared.ts: on the version strings of a \<^verbatim>\<open>requires\<close> object, and as
  the parse function of \<^verbatim>\<open>AdaptiveCard.versionProperty\<close> calls it, on the value read at
  \<^verbatim>\<open>"version"\<close> and with the error sink.\<close>

record parseEnv =
  elementTypeRegistry :: "CardObject TypeRegistry"
  actionTypeRegistry :: "CardObject TypeRegistry"
  defaultHostCapabilities :: HostCapabilities
  latestVersion :: version
  versionParse :: "string \<Rightarrow> version option"
  cardVersionParse :: "json option \<Rightarrow> errorSink \<Rightarrow> version option \<times> errorSink"

text \<open>\<^verbatim>\<open>isDesignMode()\<close> and \<^verbatim>\<open>hostConfig.hostCapabilities\<close> of the object \<open>this\<close> whose
  parent is \<open>parent\<close>. Both walk the parent chain. An object without a parent is its own
  root: it is in design mode when it is an \<^verbatim>\<open>AdaptiveCard\<close> whose \<^verbatim>\<open>designMode\<close> is set,
  and it has no host configuration of its own.\<close>

definition isDesignMode :: "CardObject \<Rightarrow> parentRef option \<Rightarrow> bool" where
  "isDesignMode this parent =
     (case parent of
        None \<Rightarrow> isAdaptiveCard (cls this) \<and> designMode (props this)
      | Some p \<Rightarrow> parentDesignMode p)"

definition resolveHostCapabilities :: "parseEnv \<Rightarrow> parentRef option \<Rightarrow> HostCapabilities" where
  "resolveHostCapabilities env parent =
     (case parent of None \<Rightarrow> defaultHostCapabilities env | Some p \<Rightarrow> parentHostCapabilities p)"

text \<open>\<^verbatim>\<open>result.shouldFallback()\<close> of an object whose parent is \<open>parent\<close>.\<close>

definition elementShouldFallback :: "parseEnv \<Rightarrow> CardObject \<Rightarrow> parentRef option \<Rightarrow> bool" where
  "elementShouldFallback env obj parent =
     shouldFallback (latestVersion env) (resolveHostCapabilities env parent) obj"

text \<open>The object \<open>this\<close> as the parent handed to the instantiation of a child, and
  \<open>this\<close> after the call, which may have set its \<^verbatim>\<open>_shouldFallback\<close> field.\<close>

definition asParent :: "parseEnv \<Rightarrow> CardObject \<Rightarrow> parentRef option \<Rightarrow> parentRef" where
  "asParent env this parent =
     \<lparr>parentShouldFallback = shouldFallbackFlag (props this),
      parentDesignMode = isDesignMode this parent,
      parentHostCapabilities = resolveHostCapabilities env parent\<rparr>"

definition fromParent :: "CardObject \<Rightarrow> parentRef option \<Rightarrow> CardObject" where
  "fromParent this p =
     (case p of None \<Rightarrow> this | Some r \<Rightarrow> setShouldFallbackFlag this (parentShouldFallback r))"

text \<open>The properties of a JSON value as a property bag.\<close>

fun propertyBag :: "json \<Rightarrow> (string \<times> json) list" where
  "propertyBag (JObj kvs) = kvs"
| "propertyBag _ = []"

lemma size_propertyBag: "map_of (propertyBag j) k = Some v \<Longrightarrow> size v < size j"
  by (cases j) (auto dest: size_map_of)

lemma size_arrayItems: "arrayItems (getProp j k) = Some xs \<Longrightarrow> size_list size xs < size j"
proof -
  assume a: "arrayItems (getProp j k) = Some xs"
  then have "getProp j k = Some (JArr xs)"
    by (cases "getProp j k" rule: arrayItems.cases) auto
  from size_getProp [OF this] show ?thesis by simp
qed

lemma size_list_member: "x \<in> set xs \<Longrightarrow> size x < Suc (size_list size xs)"
  by (induction xs) auto

subsection \<open>The schema-driven parse\<close>

text \<open>Modelled from the spec: the parse of a \<^verbatim>\<open>requires\<close> object into named versions
  (host-capabilities.ts). A malformed value is the default: no requirement.\<close>

fun parseRequires :: "(string \<Rightarrow> version option) \<Rightarrow> json option \<Rightarrow> HostCapabilities" where
  "parseRequires vp (Some (JObj kvs)) =
     List.map_filter
       (\<lambda>(name, v). case v of JStr s \<Rightarrow> map_option (Pair name) (vp s) | _ \<Rightarrow> None) kvs"
| "parseRequires vp _ = []"

text \<open>The action property of the schema of \<open>this\<close>, parsed by
  \<^verbatim>\<open>ActionPropertyDefinition.parse\<close> with \<open>this\<close> as the sender, and stored.\<close>

definition parseActionProperty ::
  "(CardObject \<Rightarrow> parentRef option \<Rightarrow> json \<Rightarrow> errorSink \<Rightarrow> exn + (CardObject \<times> errorSink)) \<Rightarrow>
   parseEnv \<Rightarrow> CardObject \<Rightarrow> parentRef option \<Rightarrow> json \<Rightarrow> errorSink \<Rightarrow>
   exn + (CardObject \<times> errorSink)" where
  "parseActionProperty parseMethod env this parent json errors =
     (case actionProperty (cls this) of
        None \<Rightarrow> Inr (this, errors)
      | Some (name, forbiddenActionTypes) \<Rightarrow>
          (case ActionPropertyDefinition_parse parseMethod (elementShouldFallback env)
                  (actionTypeRegistry env) name forbiddenActionTypes
                  (asParent env this parent) (propertyBag json) errors of
             Inl e \<Rightarrow> Inl e
           | Inr (action, parent', errors') \<Rightarrow>
               Inr (setSelectAction (fromParent this parent') action, errors')))"

text \<open>Modelled from the spec: the parse of the collection property \<^verbatim>\<open>images\<close> of
  \<^verbatim>\<open>ImageSet\<close> (\<^verbatim>\<open>SerializableObjectCollectionProperty\<close> of serialization.ts; section 6: the
  child array of an \<^verbatim>\<open>ImageSet\<close> is read at \<^verbatim>\<open>"images"\<close>). Every entry of the array is
  parsed into the instance that the property's factory creates for it, a new \<^verbatim>\<open>Image\<close>,
  which has no parent while it is parsed.\<close>

fun parseImages ::
  "(CardObject \<Rightarrow> parentRef option \<Rightarrow> json \<Rightarrow> errorSink \<Rightarrow> exn + (CardObject \<times> errorSink)) \<Rightarrow>
   json list \<Rightarrow> errorSink \<Rightarrow> exn + (CardObject list \<times> errorSink)" where
  "parseImages parseMethod [] errors = Inr ([], errors)"
| "parseImages parseMethod (sourceItem # rest) errors =
     (case parseMethod (newObject Image) None sourceItem errors of
        Inl e \<Rightarrow> Inl e
      | Inr (item, errors') \<Rightarrow>
          (case parseImages parseMethod rest errors' of
             Inl e \<Rightarrow> Inl e
           | Inr (images, errors'') \<Rightarrow> Inr (item # images, errors'')))"

text \<open>
  Modelled from the spec: \<^verbatim>\<open>SerializableObject.parse\<close> of serialization.ts (section 4.2:
  for every property of the schema, in declaration order, store the typed value read at
  its name, or the default). The properties embedded are \<^verbatim>\<open>type\<close>, \<^verbatim>\<open>id\<close> and \<^verbatim>\<open>requires\<close> of
  \<^verbatim>\<open>CardObject\<close>, the action property of the class, \<^verbatim>\<open>images\<close> of \<^verbatim>\<open>ImageSet\<close>, and \<^verbatim>\<open>version\<close>
  of \<^verbatim>\<open>AdaptiveCard\<close>, whose parse function is \<^verbatim>\<open>Version.parse\<close> and whose default is
  \<^verbatim>\<open>Versions.v1_0\<close>; \<^verbatim>\<open>InlineAdaptiveCard\<close> removes it from its schema. The other
  properties keep the value they have.
\<close>

definition SerializableObject_parse ::
  "(CardObject \<Rightarrow> parentRef option \<Rightarrow> json \<Rightarrow> errorSink \<Rightarrow> exn + (CardObject \<times> errorSink)) \<Rightarrow>
   parseEnv \<Rightarrow> CardObject \<Rightarrow> parentRef option \<Rightarrow> json \<Rightarrow> errorSink \<Rightarrow>
   exn + (CardObject \<times> errorSink)" where
  "SerializableObject_parse parseMethod env this parent json errors =
     (let this1 = setProps this
            ((props this)
               \<lparr>typeNameValue := getStringValue (getProp json ''type''),
                idValue := getStringValue (getProp json ''id''),
                requires := parseRequires (versionParse env) (getProp json ''requires'')\<rparr>)
      in case parseActionProperty parseMethod env this1 parent json errors of
           Inl e \<Rightarrow> Inl e
         | Inr (this2, errors2) \<Rightarrow>
             if cls this = ImageSet then
               (case parseImages parseMethod
                       (case arrayItems (getProp json ''images'') of None \<Rightarrow> [] | Some js \<Rightarrow> js)
                       errors2 of
                  Inl e \<Rightarrow> Inl e
                | Inr (images, errors3) \<Rightarrow> Inr (setItems this2 images, errors3))
             else if cls this = AdaptiveCard then
               (let (v, errors3) = cardVersionParse env (getProp json ''version'') errors2
                in Inr (setProps this2
                          ((props this2)
                             \<lparr>versionValue := (case v of None \<Rightarrow> Some v1_0 | Some v' \<Rightarrow> Some v')\<rparr>),
                        errors3))
             else Inr (this2, errors2))"

subsection \<open>The child collections\<close>

text \<open>\<^verbatim>\<open>item.parent\<close> as \<^verbatim>\<open>Container.insertItemAt\<close>, \<^verbatim>\<open>RichTextBlock.internalAddInline\<close>
  and \<^verbatim>\<open>ActionCollection.addAction\<close> see it: undefined, the receiver (for an action, the
  owner of the collection), or another element.\<close>

datatype parentOf = NoParent | ThisElement | OtherElement

definition insertItemAt ::
  "CardObject \<Rightarrow> CardObject \<Rightarrow> parentOf \<Rightarrow> int \<Rightarrow> bool \<Rightarrow> exn + CardObject" where
  "insertItemAt this item itemParent index forceInsert =
     (if itemParent = NoParent \<or> forceInsert then
        if isStandalone (cls item) then
          Inr (setItems this
                 (if index < 0 \<or> index \<ge> int (length (elementItems this))
                  then elementItems this @ [item]
                  else take (nat index) (elementItems this) @ [item] @
                       drop (nat index) (elementItems this)))
        else
          Inl (Error (''Elements of type '' @ getJsonTypeName (cls item) @
                      '' cannot be used as standalone elements.''))
      else Inl (Error ''The element already belongs to another container.''))"

definition internalAddInline ::
  "CardObject \<Rightarrow> CardObject \<Rightarrow> parentOf \<Rightarrow> bool \<Rightarrow> exn + CardObject" where
  "internalAddInline this inline inlineParent forceAdd =
     (if \<not> isInline (cls inline) then
        Inl (Error ''RichTextBlock.addInline: the specified card element cannot be used as a RichTextBlock inline.'')
      else
        (let doAdd = (inlineParent = NoParent \<or> forceAdd)
         in if \<not> doAdd \<and> inlineParent \<noteq> ThisElement then
              Inl (Error ''RichTextBlock.addInline: the specified inline already belongs to another RichTextBlock.'')
            else Inr (setItems this (elementItems this @ [inline]))))"

text \<open>\<^verbatim>\<open>ActionCollection.addAction\<close> on the collection of \<open>this\<close>, for an action that is set
  and is not yet an item of the collection.\<close>

definition addAction :: "CardObject \<Rightarrow> CardObject \<Rightarrow> parentOf \<Rightarrow> exn + CardObject" where
  "addAction this action actionParent =
     (if actionParent = NoParent \<or> actionParent = ThisElement then
        Inr (setActionItems this (actionItems this @ [action]))
      else Inl (Error ''The action already belongs to another element.''))"

text \<open>The loop of \<^verbatim>\<open>Container.parse\<close> over the entries of the items array.\<close>

fun Container_parseItems ::
  "(CardObject \<Rightarrow> parentRef option \<Rightarrow> json \<Rightarrow> errorSink \<Rightarrow> exn + (CardObject \<times> errorSink)) \<Rightarrow>
   parseEnv \<Rightarrow> CardObject \<Rightarrow> parentRef option \<Rightarrow> json list \<Rightarrow> errorSink \<Rightarrow>
   exn + (CardObject \<times> errorSink)" where
  "Container_parseItems parseMethod env this parent [] errors = Inr (this, errors)"
| "Container_parseItems parseMethod env this parent (item # rest) errors =
     (case createElementInstance parseMethod (elementShouldFallback env)
             (elementTypeRegistry env) (Some (asParent env this parent)) item
             (\<not> isDesignMode this parent) errors of
        Inl e \<Rightarrow> Inl e
      | Inr (element, parent', errors') \<Rightarrow>
          (case element of
             None \<Rightarrow> Container_parseItems parseMethod env (fromParent this parent') parent rest errors'
           | Some el \<Rightarrow>
               (case insertItemAt (fromParent this parent') el ThisElement (- 1) True of
                  Inl e \<Rightarrow> Inl e
                | Inr this' \<Rightarrow> Container_parseItems parseMethod env this' parent rest errors')))"

text \<open>The loop of \<^verbatim>\<open>RichTextBlock.parse\<close> over the entries of \<^verbatim>\<open>json["inlines"]\<close>. A string
  entry is a new \<^verbatim>\<open>TextRun\<close>; its text is not embedded.\<close>

fun RichTextBlock_parseInlines ::
  "(CardObject \<Rightarrow> parentRef option \<Rightarrow> json \<Rightarrow> errorSink \<Rightarrow> exn + (CardObject \<times> errorSink)) \<Rightarrow>
   parseEnv \<Rightarrow> CardObject \<Rightarrow> parentRef option \<Rightarrow> json list \<Rightarrow> errorSink \<Rightarrow>
   exn + (CardObject \<times> errorSink)" where
  "RichTextBlock_parseInlines parseMethod env this parent [] errors = Inr (this, errors)"
| "RichTextBlock_parseInlines parseMethod env this parent (jsonInline # rest) errors =
     (if typeofString jsonInline then
        (case internalAddInline this (newObject TextRun) NoParent True of
           Inl e \<Rightarrow> Inl e
         | Inr this' \<Rightarrow> RichTextBlock_parseInlines parseMethod env this' parent rest errors)
      else
        (case createElementInstance parseMethod (elementShouldFallback env)
                (elementTypeRegistry env) (Some (asParent env this parent)) jsonInline
                False errors of
           Inl e \<Rightarrow> Inl e
         | Inr (inline, parent', errors') \<Rightarrow>
             (case inline of
                None \<Rightarrow>
                  RichTextBlock_parseInlines parseMethod env (fromParent this parent') parent rest errors'
              | Some el \<Rightarrow>
                  (case internalAddInline (fromParent this parent') el ThisElement True of
                     Inl e \<Rightarrow> Inl e
                   | Inr this' \<Rightarrow>
                       RichTextBlock_parseInlines parseMethod env this' parent rest errors'))))"

text \<open>\<^verbatim>\<open>ColumnSet.createColumnInstance\<close> with its two callbacks, and the loop of
  \<^verbatim>\<open>ColumnSet.parse\<close> over the entries of \<^verbatim>\<open>json["columns"]\<close>, which pushes each column.\<close>

definition columnValidationError :: "string \<Rightarrow> InstanceCreationErrorType \<Rightarrow> IValidationError" where
  "columnValidationError name errorType =
     (if errorType = UnknownType then
        \<lparr>error = UnknownElementType,
         message = ''Unknown element type: '' @ name @ ''. Fallback will be used if present.''\<rparr>
      else
        \<lparr>error = ElementTypeNotAllowed,
         message = ''Element type '' @ name @ '' isn't allowed in a ColumnSet.''\<rparr>)"

definition createColumnInstance ::
  "(CardObject \<Rightarrow> parentRef option \<Rightarrow> json \<Rightarrow> errorSink \<Rightarrow> exn + (CardObject \<times> errorSink)) \<Rightarrow>
   parseEnv \<Rightarrow> CardObject \<Rightarrow> parentRef option \<Rightarrow> json \<Rightarrow> errorSink \<Rightarrow>
   exn + (CardObject option \<times> parentRef option \<times> errorSink)" where
  "createColumnInstance parseMethod env this parent json errors =
     createCardObjectInstance parseMethod (elementShouldFallback env)
       (Some (asParent env this parent)) json [] (\<not> isDesignMode this parent)
       (\<lambda>name. if name = [] \<or> name = ''Column'' then Some (newObject Column) else None)
       columnValidationError errors"

fun ColumnSet_parseColumns ::
  "(CardObject \<Rightarrow> parentRef option \<Rightarrow> json \<Rightarrow> errorSink \<Rightarrow> exn + (CardObject \<times> errorSink)) \<Rightarrow>
   parseEnv \<Rightarrow> CardObject \<Rightarrow> parentRef option \<Rightarrow> json list \<Rightarrow> errorSink \<Rightarrow>
   exn + (CardObject \<times> errorSink)" where
  "ColumnSet_parseColumns parseMethod env this parent [] errors = Inr (this, errors)"
| "ColumnSet_parseColumns parseMethod env this parent (item # rest) errors =
     (case createColumnInstance parseMethod env this parent item errors of
        Inl e \<Rightarrow> Inl e
      | Inr (column, parent', errors') \<Rightarrow>
          (case column of
             None \<Rightarrow> ColumnSet_parseColumns parseMethod env (fromParent this parent') parent rest errors'
           | Some col \<Rightarrow>
               ColumnSet_parseColumns parseMethod env
                 (setItems (fromParent this parent') (elementItems (fromParent this parent') @ [col]))
                 parent rest errors'))"

text \<open>The loop of \<^verbatim>\<open>ActionCollection.parse\<close> for the collection of \<open>this\<close>, the owner.\<close>

fun ActionCollection_parseActions ::
  "(CardObject \<Rightarrow> parentRef option \<Rightarrow> json \<Rightarrow> errorSink \<Rightarrow> exn + (CardObject \<times> errorSink)) \<Rightarrow>
   parseEnv \<Rightarrow> CardObject \<Rightarrow> parentRef option \<Rightarrow> json list \<Rightarrow> errorSink \<Rightarrow>
   exn + (CardObject \<times> errorSink)" where
  "ActionCollection_parseActions parseMethod env this parent [] errors = Inr (this, errors)"
| "ActionCollection_parseActions parseMethod env this parent (jsonAction # rest) errors =
     (case createActionInstance parseMethod (elementShouldFallback env)
             (actionTypeRegistry env) (asParent env this parent) jsonAction []
             (\<not> isDesignMode this parent) errors of
        Inl e \<Rightarrow> Inl e
      | Inr (action, parent', errors') \<Rightarrow>
          (case action of
             None \<Rightarrow>
               ActionCollection_parseActions parseMethod env (fromParent this parent') parent rest errors'
           | Some a \<Rightarrow>
               (case addAction (fromParent this parent') a ThisElement of
                  Inl e \<Rightarrow> Inl e
                | Inr this' \<Rightarrow>
                    ActionCollection_parseActions parseMethod env this' parent rest errors')))"

text \<open>Each loop calls the parse method only on fragments of the entries.\<close>

lemma Container_parseItems_cong:
  "(\<And>obj p j e. size j \<le> size_list size js \<Longrightarrow> pm obj p j e = pm' obj p j e) \<Longrightarrow>
   Container_parseItems pm env this parent js errs = Container_parseItems pm' env this parent js errs"
proof (induction js arbitrary: this errs)
  case Nil
  then show ?case by simp
next
  case (Cons item rest)
  have h: "createElementInstance pm sm reg p item a e = createElementInstance pm' sm reg p item a e"
    for sm reg p a e
    by (rule createElementInstance_cong) (simp_all add: Cons.prems)
  have r: "Container_parseItems pm env t parent rest e = Container_parseItems pm' env t parent rest e"
    for t e
    by (rule Cons.IH) (simp add: Cons.prems)
  show ?case by (simp add: h r cong: sum.case_cong option.case_cong)
qed

lemma RichTextBlock_parseInlines_cong:
  "(\<And>obj p j e. size j \<le> size_list size js \<Longrightarrow> pm obj p j e = pm' obj p j e) \<Longrightarrow>
   RichTextBlock_parseInlines pm env this parent js errs =
   RichTextBlock_parseInlines pm' env this parent js errs"
proof (induction js arbitrary: this errs)
  case Nil
  then show ?case by simp
next
  case (Cons item rest)
  have h: "createElementInstance pm sm reg p item a e = createElementInstance pm' sm reg p item a e"
    for sm reg p a e
    by (rule createElementInstance_cong) (simp_all add: Cons.prems)
  have r: "RichTextBlock_parseInlines pm env t parent rest e =
           RichTextBlock_parseInlines pm' env t parent rest e" for t e
    by (rule Cons.IH) (simp add: Cons.prems)
  show ?case by (simp add: h r cong: sum.case_cong option.case_cong)
qed

lemma ColumnSet_parseColumns_cong:
  "(\<And>obj p j e. size j \<le> size_list size js \<Longrightarrow> pm obj p j e = pm' obj p j e) \<Longrightarrow>
   ColumnSet_parseColumns pm env this parent js errs =
   ColumnSet_parseColumns pm' env this parent js errs"
proof (induction js arbitrary: this errs)
  case Nil
  then show ?case by simp
next
  case (Cons item rest)
  have h: "createColumnInstance pm env t p item e = createColumnInstance pm' env t p item e"
    for t p e
    unfolding createColumnInstance_def
    by (rule createCardObjectInstance_cong) (simp_all add: Cons.prems)
  have r: "ColumnSet_parseColumns pm env t parent rest e =
           ColumnSet_parseColumns pm' env t parent rest e" for t e
    by (rule Cons.IH) (simp add: Cons.prems)
  show ?case by (simp add: h r cong: sum.case_cong option.case_cong)
qed

lemma ActionCollection_parseActions_cong:
  "(\<And>obj p j e. size j \<le> size_list size js \<Longrightarrow> pm obj p j e = pm' obj p j e) \<Longrightarrow>
   ActionCollection_parseActions pm env this parent js errs =
   ActionCollection_parseActions pm' env this parent js errs"
proof (induction js arbitrary: this errs)
  case Nil
  then show ?case by simp
next
  case (Cons item rest)
  have h: "createActionInstance pm sm reg p item f a e = createActionInstance pm' sm reg p item f a e"
    for sm reg p f a e
    by (rule createActionInstance_cong) (simp_all add: Cons.prems)
  have r: "ActionCollection_parseActions pm env t parent rest e =
           ActionCollection_parseActions pm' env t parent rest e" for t e
    by (rule Cons.IH) (simp add: Cons.prems)
  show ?case by (simp add: h r cong: sum.case_cong option.case_cong)
qed

lemma parseImages_cong:
  "(\<And>obj p j e. size j \<le> size_list size js \<Longrightarrow> pm obj p j e = pm' obj p j e) \<Longrightarrow>
   parseImages pm js errs = parseImages pm' js errs"
proof (induction js arbitrary: errs)
  case Nil
  then show ?case by simp
next
  case (Cons item rest)
  have h: "pm obj p item e = pm' obj p item e" for obj p e
    by (rule Cons.prems) simp
  have r: "parseImages pm rest e = parseImages pm' rest e" for e
    by (rule Cons.IH) (simp add: Cons.prems)
  show ?case by (simp add: h r cong: sum.case_cong)
qed

lemma parseActionProperty_cong:
  assumes "\<And>obj p j e. size j < size json \<Longrightarrow> pm obj p j e = pm' obj p j e"
  shows "parseActionProperty pm env this parent json errs =
         parseActionProperty pm' env this parent json errs"
proof -
  have "createActionInstance pm sm reg p v f a e = createActionInstance pm' sm reg p v f a e"
    if "map_of (propertyBag json) name = Some v" for sm reg p v f a e name
  proof (rule createActionInstance_cong)
    fix obj p and j :: json and e
    assume "size j \<le> size v"
    with size_propertyBag [OF that] have "size j < size json" by simp
    then show "pm obj p j e = pm' obj p j e" by (rule assms)
  qed simp_all
  then show ?thesis
    by (simp add: parseActionProperty_def ActionPropertyDefinition_parse_def
          split: option.splits prod.splits cong: sum.case_cong)
qed

lemma SerializableObject_parse_cong [fundef_cong]:
  assumes "env = env'" "this = this'" "parent = parent'" "json = json'" "errs = errs'"
    and "\<And>obj p j e. size j < size json' \<Longrightarrow> pm obj p j e = pm' obj p j e"
  shows "SerializableObject_parse pm env this parent json errs =
         SerializableObject_parse pm' env' this' parent' json' errs'"
proof -
  have a: "parseActionProperty pm env' t parent' json' e = parseActionProperty pm' env' t parent' json' e"
    for t e
    by (rule parseActionProperty_cong) (rule assms(6))
  have b: "parseImages pm (case arrayItems (getProp json' ''images'') of None \<Rightarrow> [] | Some js \<Rightarrow> js) e =
           parseImages pm' (case arrayItems (getProp json' ''images'') of None \<Rightarrow> [] | Some js \<Rightarrow> js) e"
    for e
  proof (cases "arrayItems (getProp json' ''images'')")
    case None
    then show ?thesis by simp
  next
    case (Some js)
    have "parseImages pm js e = parseImages pm' js e"
    proof (rule parseImages_cong)
      fix obj p and j :: json and e
      assume "size j \<le> size_list size js"
      with size_arrayItems [OF Some] have "size j < size json'" by simp
      then show "pm obj p j e = pm' obj p j e" by (rule assms(6))
    qed
    with Some show ?thesis by simp
  qed
  show ?thesis
    unfolding assms(1-5) SerializableObject_parse_def a b ..
qed

subsection \<open>The parse methods of the classes\<close>

text \<open>
  Each method takes the virtual \<^verbatim>\<open>parse\<close> that it calls on other objects as the
  parameter \<open>parseMethod\<close>. \<^verbatim>\<open>CardElement.parse\<close> and \<^verbatim>\<open>Action.parse\<close> are the schema-driven
  parse; the hooks \<^verbatim>\<open>onParseElement\<close> and \<^verbatim>\<open>onParseAction\<close> of the host application, which
  they raise, are left out.
\<close>

definition RichTextBlock_parse ::
  "(CardObject \<Rightarrow> parentRef option \<Rightarrow> json \<Rightarrow> errorSink \<Rightarrow> exn + (CardObject \<times> errorSink)) \<Rightarrow>
   parseEnv \<Rightarrow> CardObject \<Rightarrow> parentRef option \<Rightarrow> json \<Rightarrow> errorSink \<Rightarrow>
   exn + (CardObject \<times> errorSink)" where
  "RichTextBlock_parse parseMethod env this parent json errors =
     (case SerializableObject_parse parseMethod env this parent json errors of
        Inl e \<Rightarrow> Inl e
      | Inr (this1, errors1) \<Rightarrow>
          (let this2 = setItems this1 []
           in case arrayItems (getProp json ''inlines'') of
                None \<Rightarrow> Inr (this2, errors1)
              | Some jsonInlines \<Rightarrow>
                  RichTextBlock_parseInlines parseMethod env this2 parent jsonInlines errors1))"

text \<open>\<^verbatim>\<open>getItemsCollectionPropertyName\<close>, and \<^verbatim>\<open>clear\<close>, which \<^verbatim>\<open>ContainerWithActions\<close>
  overrides to clear its action collection as well.\<close>

definition getItemsCollectionPropertyName :: "cardClass \<Rightarrow> string" where
  "getItemsCollectionPropertyName c = (if isAdaptiveCard c then ''body'' else ''items'')"

definition Container_clear :: "CardObject \<Rightarrow> CardObject" where
  "Container_clear this =
     (if isAdaptiveCard (cls this) then setActionItems (setItems this []) []
      else setItems this [])"

definition Container_parse ::
  "(CardObject \<Rightarrow> parentRef option \<Rightarrow> json \<Rightarrow> errorSink \<Rightarrow> exn + (CardObject \<times> errorSink)) \<Rightarrow>
   parseEnv \<Rightarrow> CardObject \<Rightarrow> parentRef option \<Rightarrow> json \<Rightarrow> errorSink \<Rightarrow>
   exn + (CardObject \<times> errorSink)" where
  "Container_parse parseMethod env this parent json errors =
     (case SerializableObject_parse parseMethod env this parent json errors of
        Inl e \<Rightarrow> Inl e
      | Inr (this1, errors1) \<Rightarrow>
          (let this2 = setShouldFallbackFlag (Container_clear this1) False
           in case arrayItems (getProp json (getItemsCollectionPropertyName (cls this))) of
                None \<Rightarrow> Inr (this2, errors1)
              | Some jsonItems \<Rightarrow>
                  Container_parseItems parseMethod env this2 parent jsonItems errors1))"

definition ColumnSet_parse ::
  "(CardObject \<Rightarrow> parentRef option \<Rightarrow> json \<Rightarrow> errorSink \<Rightarrow> exn + (CardObject \<times> errorSink)) \<Rightarrow>
   parseEnv \<Rightarrow> CardObject \<Rightarrow> parentRef option \<Rightarrow> json \<Rightarrow> errorSink \<Rightarrow>
   exn + (CardObject \<times> errorSink)" where
  "ColumnSet_parse parseMethod env this parent json errors =
     (case SerializableObject_parse parseMethod env this parent json errors of
        Inl e \<Rightarrow> Inl e
      | Inr (this1, errors1) \<Rightarrow>
          (let this2 = setItems this1 []
           in case arrayItems (getProp json ''columns'') of
                None \<Rightarrow> Inr (this2, errors1)
              | Some jsonColumns \<Rightarrow>
                  ColumnSet_parseColumns parseMethod env this2 parent jsonColumns errors1))"

text \<open>\<^verbatim>\<open>ActionCollection.parse\<close> for the collection of \<open>this\<close>, on the value read at
  \<^verbatim>\<open>"actions"\<close>.\<close>

definition ActionCollection_parse ::
  "(CardObject \<Rightarrow> parentRef option \<Rightarrow> json \<Rightarrow> errorSink \<Rightarrow> exn + (CardObject \<times> errorSink)) \<Rightarrow>
   parseEnv \<Rightarrow> CardObject \<Rightarrow> parentRef option \<Rightarrow> json option \<Rightarrow> errorSink \<Rightarrow>
   exn + (CardObject \<times> errorSink)" where
  "ActionCollection_parse parseMethod env this parent json errors =
     (let this1 = setActionItems this []
      in case arrayItems json of
           None \<Rightarrow> Inr (this1, errors)
         | Some jsonActions \<Rightarrow>
             ActionCollection_parseActions parseMethod env this1 parent jsonActions errors)"

definition ActionSet_parse ::
  "(CardObject \<Rightarrow> parentRef option \<Rightarrow> json \<Rightarrow> errorSink \<Rightarrow> exn + (CardObject \<times> errorSink)) \<Rightarrow>
   parseEnv \<Rightarrow> CardObject \<Rightarrow> parentRef option \<Rightarrow> json \<Rightarrow> errorSink \<Rightarrow>
   exn + (CardObject \<times> errorSink)" where
  "ActionSet_parse parseMethod env this parent json errors =
     (case SerializableObject_parse parseMethod env this parent json errors of
        Inl e \<Rightarrow> Inl e
      | Inr (this1, errors1) \<Rightarrow>
          ActionCollection_parse parseMethod env this1 parent (getProp json ''actions'') errors1)"

definition ContainerWithActions_parse ::
  "(CardObject \<Rightarrow> parentRef option \<Rightarrow> json \<Rightarrow> errorSink \<Rightarrow> exn + (CardObject \<times> errorSink)) \<Rightarrow>
   parseEnv \<Rightarrow> CardObject \<Rightarrow> parentRef option \<Rightarrow> json \<Rightarrow> errorSink \<Rightarrow>
   exn + (CardObject \<times> errorSink)" where
  "ContainerWithActions_parse parseMethod env this parent json errors =
     (case Container_parse parseMethod env this parent json errors of
        Inl e \<Rightarrow> Inl e
      | Inr (this1, errors1) \<Rightarrow>
          ActionCollection_parse parseMethod env this1 parent (getProp json ''actions'') errors1)"

text \<open>\<^verbatim>\<open>AdaptiveCard.parse\<close>: the fallback element is instantiated without a parent and
  added to a new card by \<^verbatim>\<open>addItem\<close>, which is \<^verbatim>\<open>insertItemAt(item, -1, false)\<close>.\<close>

definition AdaptiveCard_parse ::
  "(CardObject \<Rightarrow> parentRef option \<Rightarrow> json \<Rightarrow> errorSink \<Rightarrow> exn + (CardObject \<times> errorSink)) \<Rightarrow>
   parseEnv \<Rightarrow> CardObject \<Rightarrow> parentRef option \<Rightarrow> json \<Rightarrow> errorSink \<Rightarrow>
   exn + (CardObject \<times> errorSink)" where
  "AdaptiveCard_parse parseMethod env this parent json errors =
     (let this0 = setFallbackCard this None
      in case (case getProp json ''fallback'' of
                 None \<Rightarrow> Inr (None, None, errors)
               | Some fallback \<Rightarrow>
                   createElementInstance parseMethod (elementShouldFallback env)
                     (elementTypeRegistry env) None fallback (\<not> isDesignMode this0 parent) errors) of
           Inl e \<Rightarrow> Inl e
         | Inr (fallbackElement, noParent, errors1) \<Rightarrow>
             (case (case fallbackElement of
                      None \<Rightarrow> Inr this0
                    | Some el \<Rightarrow>
                        (case insertItemAt (newObject AdaptiveCard) el NoParent (- 1) False of
                           Inl e \<Rightarrow> Inl e
                         | Inr fallbackCard' \<Rightarrow> Inr (setFallbackCard this0 (Some fallbackCard')))) of
                Inl e \<Rightarrow> Inl e
              | Inr this1 \<Rightarrow> ContainerWithActions_parse parseMethod env this1 parent json errors1))"

text \<open>\<^verbatim>\<open>ShowCardAction.parse\<close>. The card of the action has the parent of the action
  (\<^verbatim>\<open>ShowCardAction.setParent\<close>).\<close>

definition ShowCardAction_parse ::
  "(CardObject \<Rightarrow> parentRef option \<Rightarrow> json \<Rightarrow> errorSink \<Rightarrow> exn + (CardObject \<times> errorSink)) \<Rightarrow>
   parseEnv \<Rightarrow> CardObject \<Rightarrow> parentRef option \<Rightarrow> json \<Rightarrow> errorSink \<Rightarrow>
   exn + (CardObject \<times> errorSink)" where
  "ShowCardAction_parse parseMethod env this parent json errors =
     (case SerializableObject_parse parseMethod env this parent json errors of
        Inl e \<Rightarrow> Inl e
      | Inr (this1, errors1) \<Rightarrow>
          (case getProp json ''card'' of
             None \<Rightarrow>
               Inr (this1,
                    raiseParseError
                      \<lparr>error = PropertyCantBeNull,
                       message = ''An Action.ShowCard must have its \"card\" property set to a valid AdaptiveCard object.''\<rparr>
                      errors1)
           | Some jsonCard \<Rightarrow>
               if truthy jsonCard then
                 (case parseMethod (theCard this1) parent jsonCard errors1 of
                    Inl e \<Rightarrow> Inl e
                  | Inr (thisCard', errors2) \<Rightarrow>
                      Inr (setInlineCard this1 (Some thisCard'), errors2))
               else
                 Inr (this1,
                      raiseParseError
                        \<lparr>error = PropertyCantBeNull,
                         message = ''An Action.ShowCard must have its \"card\" property set to a valid AdaptiveCard object.''\<rparr>
                        errors1)))"

lemma RichTextBlock_parse_cong [fundef_cong]:
  assumes "env = env'" "this = this'" "parent = parent'" "json = json'" "errs = errs'"
    and "\<And>obj p j e. size j < size json' \<Longrightarrow> pm obj p j e = pm' obj p j e"
  shows "RichTextBlock_parse pm env this parent json errs =
         RichTextBlock_parse pm' env' this' parent' json' errs'"
proof -
  have a: "SerializableObject_parse pm env' this' parent' json' errs' =
           SerializableObject_parse pm' env' this' parent' json' errs'"
    by (rule SerializableObject_parse_cong) (simp_all add: assms(6))
  have b: "RichTextBlock_parseInlines pm env' t parent' js e =
           RichTextBlock_parseInlines pm' env' t parent' js e"
    if "arrayItems (getProp json' ''inlines'') = Some js" for js t e
  proof (rule RichTextBlock_parseInlines_cong)
    fix obj p and j :: json and e
    assume "size j \<le> size_list size js"
    with size_arrayItems [OF that] have "size j < size json'" by simp
    then show "pm obj p j e = pm' obj p j e" by (rule assms(6))
  qed
  show ?thesis
    unfolding assms(1-5)
    by (auto simp: RichTextBlock_parse_def a b Let_def split: option.splits sum.splits prod.splits)
qed

lemma Container_parse_cong [fundef_cong]:
  assumes "env = env'" "this = this'" "parent = parent'" "json = json'" "errs = errs'"
    and "\<And>obj p j e. size j < size json' \<Longrightarrow> pm obj p j e = pm' obj p j e"
  shows "Container_parse pm env this parent json errs =
         Container_parse pm' env' this' parent' json' errs'"
proof -
  have a: "SerializableObject_parse pm env' this' parent' json' errs' =
           SerializableObject_parse pm' env' this' parent' json' errs'"
    by (rule SerializableObject_parse_cong) (simp_all add: assms(6))
  have b: "Container_parseItems pm env' t parent' js e =
           Container_parseItems pm' env' t parent' js e"
    if "arrayItems (getProp json' k) = Some js" for js t e k
  proof (rule Container_parseItems_cong)
    fix obj p and j :: json and e
    assume "size j \<le> size_list size js"
    with size_arrayItems [OF that] have "size j < size json'" by simp
    then show "pm obj p j e = pm' obj p j e" by (rule assms(6))
  qed
  show ?thesis
    unfolding assms(1-5)
    by (auto simp: Container_parse_def a b Let_def split: option.splits sum.splits prod.splits)
qed

lemma ColumnSet_parse_cong [fundef_cong]:
  assumes "env = env'" "this = this'" "parent = parent'" "json = json'" "errs = errs'"
    and "\<And>obj p j e. size j < size json' \<Longrightarrow> pm obj p j e = pm' obj p j e"
  shows "ColumnSet_parse pm env this parent json errs =
         ColumnSet_parse pm' env' this' parent' json' errs'"
proof -
  have a: "SerializableObject_parse pm env' this' parent' json' errs' =
           SerializableObject_parse pm' env' this' parent' json' errs'"
    by (rule SerializableObject_parse_cong) (simp_all add: assms(6))
  have b: "ColumnSet_parseColumns pm env' t parent' js e =
           ColumnSet_parseColumns pm' env' t parent' js e"
    if "arrayItems (getProp json' ''columns'') = Some js" for js t e
  proof (rule ColumnSet_parseColumns_cong)
    fix obj p and j :: json and e
    assume "size j \<le> size_list size js"
    with size_arrayItems [OF that] have "size j < size json'" by simp
    then show "pm obj p j e = pm' obj p j e" by (rule assms(6))
  qed
  show ?thesis
    unfolding assms(1-5)
    by (auto simp: ColumnSet_parse_def a b Let_def split: option.splits sum.splits prod.splits)
qed

lemma ActionCollection_parse_cong:
  assumes "\<And>obj p j e. size j < size json \<Longrightarrow> pm obj p j e = pm' obj p j e"
  shows "ActionCollection_parse pm env this parent (getProp json k) errs =
         ActionCollection_parse pm' env this parent (getProp json k) errs"
proof -
  have b: "ActionCollection_parseActions pm env t parent js e =
           ActionCollection_parseActions pm' env t parent js e"
    if "arrayItems (getProp json k) = Some js" for js t e
  proof (rule ActionCollection_parseActions_cong)
    fix obj p and j :: json and e
    assume "size j \<le> size_list size js"
    with size_arrayItems [OF that] have "size j < size json" by simp
    then show "pm obj p j e = pm' obj p j e" by (rule assms)
  qed
  show ?thesis
    by (simp add: ActionCollection_parse_def b Let_def split: option.splits)
qed

lemma ActionSet_parse_cong [fundef_cong]:
  assumes "env = env'" "this = this'" "parent = parent'" "json = json'" "errs = errs'"
    and "\<And>obj p j e. size j < size json' \<Longrightarrow> pm obj p j e = pm' obj p j e"
  shows "ActionSet_parse pm env this parent json errs =
         ActionSet_parse pm' env' this' parent' json' errs'"
proof -
  have a: "SerializableObject_parse pm env' this' parent' json' errs' =
           SerializableObject_parse pm' env' this' parent' json' errs'"
    by (rule SerializableObject_parse_cong) (simp_all add: assms(6))
  have b: "ActionCollection_parse pm env' t parent' (getProp json' ''actions'') e =
           ActionCollection_parse pm' env' t parent' (getProp json' ''actions'') e" for t e
    by (rule ActionCollection_parse_cong) (rule assms(6))
  show ?thesis
    unfolding assms(1-5)
    by (auto simp: ActionSet_parse_def a b split: option.splits sum.splits prod.splits)
qed

lemma ContainerWithActions_parse_cong [fundef_cong]:
  assumes "env = env'" "this = this'" "parent = parent'" "json = json'" "errs = errs'"
    and "\<And>obj p j e. size j < size json' \<Longrightarrow> pm obj p j e = pm' obj p j e"
  shows "ContainerWithActions_parse pm env this parent json errs =
         ContainerWithActions_parse pm' env' this' parent' json' errs'"
proof -
  have a: "Container_parse pm env' this' parent' json' errs' =
           Container_parse pm' env' this' parent' json' errs'"
    by (rule Container_parse_cong) (simp_all add: assms(6))
  have b: "ActionCollection_parse pm env' t parent' (getProp json' ''actions'') e =
           ActionCollection_parse pm' env' t parent' (getProp json' ''actions'') e" for t e
    by (rule ActionCollection_parse_cong) (rule assms(6))
  show ?thesis
    unfolding assms(1-5)
    by (auto simp: ContainerWithActions_parse_def a b split: option.splits sum.splits prod.splits)
qed

lemma AdaptiveCard_parse_cong [fundef_cong]:
  assumes "env = env'" "this = this'" "parent = parent'" "json = json'" "errs = errs'"
    and "\<And>obj p j e. size j < size json' \<Longrightarrow> pm obj p j e = pm' obj p j e"
  shows "AdaptiveCard_parse pm env this parent json errs =
         AdaptiveCard_parse pm' env' this' parent' json' errs'"
proof -
  have a: "ContainerWithActions_parse pm env' t parent' json' e =
           ContainerWithActions_parse pm' env' t parent' json' e" for t e
    by (rule ContainerWithActions_parse_cong) (simp_all add: assms(6))
  have b: "createElementInstance pm sm reg p fb al e = createElementInstance pm' sm reg p fb al e"
    if "getProp json' ''fallback'' = Some fb" for sm reg p fb al e
  proof (rule createElementInstance_cong)
    fix obj p and j :: json and e
    assume "size j \<le> size fb"
    with size_getProp [OF that] have "size j < size json'" by simp
    then show "pm obj p j e = pm' obj p j e" by (rule assms(6))
  qed simp_all
  show ?thesis
    unfolding assms(1-5)
    by (auto simp: AdaptiveCard_parse_def a b Let_def split: option.splits sum.splits prod.splits)
qed

lemma ShowCardAction_parse_cong [fundef_cong]:
  assumes "env = env'" "this = this'" "parent = parent'" "json = json'" "errs = errs'"
    and "\<And>obj p j e. size j < size json' \<Longrightarrow> pm obj p j e = pm' obj p j e"
  shows "ShowCardAction_parse pm env this parent json errs =
         ShowCardAction_parse pm' env' this' parent' json' errs'"
proof -
  have a: "SerializableObject_parse pm env' this' parent' json' errs' =
           SerializableObject_parse pm' env' this' parent' json' errs'"
    by (rule SerializableObject_parse_cong) (simp_all add: assms(6))
  have b: "pm obj p jc e = pm' obj p jc e"
    if "getProp json' ''card'' = Some jc" for obj p jc e
    by (rule assms(6)) (rule size_getProp [OF that])
  show ?thesis
    unfolding assms(1-5)
    by (auto simp: ShowCardAction_parse_def a b Let_def split: option.splits sum.splits prod.splits)
qed

text \<open>\<^verbatim>\<open>obj.parse(json, errors)\<close> after \<^verbatim>\<open>obj.setParent(parent)\<close>: the method of the
  object's class.\<close>

function parseObject ::
  "parseEnv \<Rightarrow> CardObject \<Rightarrow> parentRef option \<Rightarrow> json \<Rightarrow> errorSink \<Rightarrow>
   exn + (CardObject \<times> errorSink)" where
  "parseObject env this parent json errors =
     (if cls this = RichTextBlock then RichTextBlock_parse (parseObject env) env this parent json errors
      else if cls this = ColumnSet then ColumnSet_parse (parseObject env) env this parent json errors
      else if cls this = ActionSet then ActionSet_parse (parseObject env) env this parent json errors
      else if cls this = ShowCardAction then
        ShowCardAction_parse (parseObject env) env this parent json errors
      else if isAdaptiveCard (cls this) then
        AdaptiveCard_parse (parseObject env) env this parent json errors
      else if isContainer (cls this) then Container_parse (parseObject env) env this parent json errors
      else SerializableObject_parse (parseObject env) env this parent json errors)"
  by pat_completeness auto
termination
  by (relation "measure (\<lambda>(env, this, parent, json, errors). size json)") auto

declare parseObject.simps [simp del]

text \<open>\<^verbatim>\<open>ElementTypeRegistry.reset\<close> and \<^verbatim>\<open>ActionTypeRegistry.reset\<close>.\<close>

definition ElementTypeRegistry_reset :: "CardObject TypeRegistry" where
  "ElementTypeRegistry_reset =
     foldl (\<lambda>items (name, c, sv). registerType items name (\<lambda>_. newObject c) sv) clear
       [(''Container'', Container [], AnyVersion),
        (''TextBlock'', TextBlock, AnyVersion),
        (''RichTextBlock'', RichTextBlock, AtVersion v1_2),
        (''TextRun'', TextRun, AtVersion v1_2),
        (''Image'', Image, AnyVersion),
        (''ImageSet'', ImageSet, AnyVersion),
        (''Media'', Media, AtVersion v1_1),
        (''FactSet'', FactSet, AnyVersion),
        (''ColumnSet'', ColumnSet, AnyVersion),
        (''ActionSet'', ActionSet, AtVersion v1_2),
        (''Input.Text'', TextInput, AnyVersion),
        (''Input.Date'', DateInput, AnyVersion),
        (''Input.Time'', TimeInput, AnyVersion),
        (''Input.Number'', NumberInput, AnyVersion),
        (''Input.ChoiceSet'', ChoiceSetInput, AnyVersion),
        (''Input.Toggle'', ToggleInput, AnyVersion)]"

definition ActionTypeRegistry_reset :: "CardObject TypeRegistry" where
  "ActionTypeRegistry_reset =
     foldl (\<lambda>items (name, c, sv). registerType items name (\<lambda>_. newObject c) sv) clear
       [(''Action.OpenUrl'', OpenUrlAction, AnyVersion),
        (''Action.Submit'', SubmitAction, AnyVersion),
        (''Action.ShowCard'', ShowCardAction, AnyVersion),
        (''Action.ToggleVisibility'', ToggleVisibilityAction, AtVersion v1_2)]"

text \<open>\<^verbatim>\<open>createElementInstance\<close> with the parse and fallback methods of the classes: the
  call as the source makes it.\<close>

definition parseChildElement ::
  "parseEnv \<Rightarrow> parentRef option \<Rightarrow> json \<Rightarrow> bool \<Rightarrow> errorSink \<Rightarrow>
   exn + (CardObject option \<times> parentRef option \<times> errorSink)" where
  "parseChildElement env parent json allowFallback errors =
     createElementInstance (parseObject env) (elementShouldFallback env)
       (elementTypeRegistry env) parent json allowFallback errors"

section \<open>What the validation pass visits\<close>




text \<open>A report holds a failure of the given kind attached to the object \<open>obj\<close>.\<close>

definition reportsFailure :: "ValidationResults \<Rightarrow> objectRef \<Rightarrow> ValidationError \<Rightarrow> bool" where
  "reportsFailure results obj kind =
     list_ex (\<lambda>f. cardObject f = obj \<and> list_ex (\<lambda>e. error e = kind) (failureErrors f))
       (failures results)"

section \<open>The duplicate check as a fold\<close>

text \<open>The pairs of object and error kind that a list of failures holds.\<close>

definition reported :: "ValidationFailure list \<Rightarrow> (objectRef \<times> ValidationError) set" where
  "reported fs = {(cardObject f, error e) | f e. f \<in> set fs \<and> e \<in> set (failureErrors f)}"

text \<open>The state of the duplicate check: the counter, and the objects reported so far; or
  the exception thrown.\<close>

definition dupState :: "ValidationResults \<Rightarrow> (string \<rightharpoonup> nat) \<times> objectRef set" where
  "dupState context = (allIds context, {obj. (obj, DuplicateId) \<in> reported (failures context)})"

definition dupResult :: "exn + ValidationResults \<Rightarrow> exn + (string \<rightharpoonup> nat) \<times> objectRef set" where
  "dupResult r = (case r of Inl e \<Rightarrow> Inl e | Inr context \<Rightarrow> Inr (dupState context))"

fun idStep :: "exn + (string \<rightharpoonup> nat) \<times> objectRef set \<Rightarrow> objectRef \<times> string option \<Rightarrow>
    exn + (string \<rightharpoonup> nat) \<times> objectRef set" where
  "idStep (Inl e) x = Inl e"
| "idStep (Inr (m, D)) (obj, None) = Inr (m, D)"
| "idStep (Inr (m, D)) (obj, Some i) =
     (if i = [] then Inr (m, D)
      else if m ''hasOwnProperty'' \<noteq> None then Inl TypeError
      else case m i of
             None \<Rightarrow> if i = ''__proto__'' then Inr (m, D) else Inr (m(i \<mapsto> 1), D)
           | Some n \<Rightarrow> Inr (m(i \<mapsto> n + 1), if n = 1 then insert obj D else D))"

section \<open>The built-in registries\<close>

lemma reset_createInstance:
  "TypeRegistry_createInstance ElementTypeRegistry_reset name =
     map_option newObject
       (map_of
          [(''Container'', Container []), (''TextBlock'', TextBlock),
           (''RichTextBlock'', RichTextBlock), (''TextRun'', TextRun), (''Image'', Image),
           (''ImageSet'', ImageSet), (''Media'', Media), (''FactSet'', FactSet),
           (''ColumnSet'', ColumnSet), (''ActionSet'', ActionSet), (''Input.Text'', TextInput),
           (''Input.Date'', DateInput), (''Input.Time'', TimeInput),
           (''Input.Number'', NumberInput), (''Input.ChoiceSet'', ChoiceSetInput),
           (''Input.Toggle'', ToggleInput)] name)"
  by (simp add: ElementTypeRegistry_reset_def registerType_def clear_def
        TypeRegistry_createInstance_def)

lemma action_reset_createInstance:
  "TypeRegistry_createInstance ActionTypeRegistry_reset name =
     map_option newObject
       (map_of
          [(''Action.OpenUrl'', OpenUrlAction), (''Action.Submit'', SubmitAction),
           (''Action.ShowCard'', ShowCardAction),
           (''Action.ToggleVisibility'', ToggleVisibilityAction)] name)"
  by (simp add: ActionTypeRegistry_reset_def registerType_def clear_def
        TypeRegistry_createInstance_def)

section \<open>Instantiation: forbidden types, unknown types and the absent fallback\<close>

lemma typed_fragment:
  "getProp json ''type'' = Some (JStr name) \<Longrightarrow> truthy json \<and> typeofObject json"
  by (cases json) simp_all

text \<open>
  Claim C1. A fragment whose type name is in the forbidden list yields no instance, leaves
  the parent as it is and records the forbidden-type error of the caller's callback
  (ActionTypeNotAllowed for actions, ElementTypeNotAllowed for elements), whatever its
  "fallback" key holds and whether or not fallback is allowed. In contrast, a fragment whose
  type is not forbidden and not registered, with an object under "fallback" and fallback
  allowed, is replaced by the instantiation of that object.
\<close>

theorem forbidden_type_never_falls_back:
  assumes "getProp json ''type'' = Some (JStr name)" and "name \<noteq> []"
  shows "(name \<in> set forbiddenTypeNames \<longrightarrow>
            createCardObjectInstance pm sm parent json forbiddenTypeNames allowFallback ci ce sink =
              Inr (None, parent, raiseParseError (ce name ForbiddenType) sink)) \<and>
         (name \<notin> set forbiddenTypeNames \<and> ci name = None \<and>
          getProp json ''fallback'' = Some (JObj fb) \<longrightarrow>
            createCardObjectInstance pm sm parent json forbiddenTypeNames True ci ce sink =
              createCardObjectInstance pm sm parent (JObj fb) forbiddenTypeNames True ci ce
                (raiseParseError (ce name UnknownType) sink)) \<and>
         error (actionValidationError name ForbiddenType) = ActionTypeNotAllowed \<and>
         error (elementValidationError name ForbiddenType) = ElementTypeNotAllowed \<and>
         raiseParseError (ce name ForbiddenType) (Some es) = Some (es @ [ce name ForbiddenType])"
proof -
  from assms(1) have j: "truthy json" "typeofObject json" by (simp_all add: typed_fragment)
  have a: "createCardObjectInstance pm sm parent json forbiddenTypeNames allowFallback ci ce sink =
             Inr (None, parent, raiseParseError (ce name ForbiddenType) sink)"
    if "name \<in> set forbiddenTypeNames"
    using assms j that by (subst createCardObjectInstance.simps) simp
  have b: "createCardObjectInstance pm sm parent json forbiddenTypeNames True ci ce sink =
             createCardObjectInstance pm sm parent (JObj fb) forbiddenTypeNames True ci ce
               (raiseParseError (ce name UnknownType) sink)"
    if "name \<notin> set forbiddenTypeNames" "ci name = None" "getProp json ''fallback'' = Some (JObj fb)"
    using assms j that
    by (subst createCardObjectInstance.simps) (simp add: instantiateAndParse_def)
  show ?thesis
    using a b by (simp add: actionValidationError_def elementValidationError_def raiseParseError_def)
qed

theorem forbidden_type_never_falls_back_witness:
  "ActionPropertyDefinition_parse (\<lambda>(obj::nat) p j s. Inr (obj, s)) (\<lambda>obj p. False)
     [\<lparr>typeName = ''Action.Submit'', schemaVersion = AnyVersion, createInstance = (\<lambda>_. 0)\<rparr>]
     ''selectAction'' [''Action.ShowCard'']
     \<lparr>parentShouldFallback = False, parentDesignMode = True, parentHostCapabilities = []\<rparr>
     [(''type'', JStr ''Container''),
      (''selectAction'',
       JObj [(''type'', JStr ''Action.ShowCard''),
             (''fallback'', JObj [(''type'', JStr ''Action.Submit'')])])]
     (Some []) =
   Inr (None,
        Some \<lparr>parentShouldFallback = False, parentDesignMode = True, parentHostCapabilities = []\<rparr>,
        Some [\<lparr>error = ActionTypeNotAllowed,
               message = ''Action type Action.ShowCard is not allowed in this context.''\<rparr>])"
proof -
  let ?j = "JObj [(''type'', JStr ''Action.ShowCard''), (''fallback'', JObj [(''type'', JStr ''Action.Submit'')])]"
  have t: "getProp ?j ''type'' = Some (JStr ''Action.ShowCard'')" by simp
  have n: "''Action.ShowCard'' \<noteq> []" by simp
  have m: "''Action.ShowCard'' \<in> set [''Action.ShowCard'']" by simp
  note c = forbidden_type_never_falls_back [OF t n, THEN conjunct1, THEN mp, OF m]
  show ?thesis
    unfolding ActionPropertyDefinition_parse_def createActionInstance_def
    by (simp add: c raiseParseError_def actionValidationError_def)
qed

text \<open>
  Claim C6. With "Foo" not registered, the fragment {"type":"Foo","fallback":"drop"} parsed
  as a child with fallback allowed returns normally, yields no element, leaves the parent as
  it is, and appends exactly one error, an UnknownElementType, to the error sink.
\<close>

theorem unknown_type_with_drop_fallback:
  assumes "TypeRegistry_createInstance reg ''Foo'' = None"
  shows "createElementInstance pm sm reg parent
           (JObj [(''type'', JStr ''Foo''), (''fallback'', JStr ''drop'')]) True (Some es) =
         Inr (None, parent,
              Some (es @ [\<lparr>error = UnknownElementType,
                            message = ''Unknown element type: Foo. Fallback will be used if present.''\<rparr>]))"
  unfolding createElementInstance_def
  using assms
  by (subst createCardObjectInstance.simps)
     (simp add: instantiateAndParse_def raiseParseError_def elementValidationError_def
        toLowerCase_def lowerChar_def)

theorem unknown_type_with_drop_fallback_witness:
  "TypeRegistry_createInstance ElementTypeRegistry_reset ''Foo'' = None \<and>
   parseChildElement
     \<lparr>elementTypeRegistry = ElementTypeRegistry_reset,
      actionTypeRegistry = ActionTypeRegistry_reset, defaultHostCapabilities = [],
      latestVersion = v1_2, versionParse = (\<lambda>s. None), cardVersionParse = (\<lambda>j e. (None, e))\<rparr>
     (Some \<lparr>parentShouldFallback = False, parentDesignMode = False, parentHostCapabilities = []\<rparr>)
     (JObj [(''type'', JStr ''Foo''), (''fallback'', JStr ''drop'')]) True (Some []) =
   Inr (None,
        Some \<lparr>parentShouldFallback = False, parentDesignMode = False, parentHostCapabilities = []\<rparr>,
        Some [\<lparr>error = UnknownElementType,
               message = ''Unknown element type: Foo. Fallback will be used if present.''\<rparr>])"
proof -
  have h: "TypeRegistry_createInstance ElementTypeRegistry_reset ''Foo'' = None"
    by (simp add: reset_createInstance)
  from unknown_type_with_drop_fallback [OF h, where es = "[]"] h
  show ?thesis by (simp add: parseChildElement_def)
qed

text \<open>
  Claim C7. When the instance parsed from a fragment reports shouldFallback(), fallback is
  allowed and the fragment has no "fallback" key, the call returns that instance as parse
  left it, and a parent, if there is one, has its should-fallback flag set to true.
\<close>

theorem absent_fallback_propagates_to_parent:
  assumes "getProp json ''type'' = Some (JStr name)" and "name \<noteq> []"
    and "name \<notin> set forbiddenTypeNames"
    and "ci name = Some inst"
    and "pm inst parent json sink = Inr (result, sink')"
    and "sm result parent"
    and "getProp json ''fallback'' = None"
  shows "createCardObjectInstance pm sm parent json forbiddenTypeNames True ci ce sink =
           Inr (Some result, map_option (setShouldFallback True) parent, sink') \<and>
         (\<forall>p. parent = Some p \<longrightarrow>
            map_option parentShouldFallback (map_option (setShouldFallback True) parent) = Some True)"
proof -
  from assms(1) have j: "truthy json" "typeofObject json" by (simp_all add: typed_fragment)
  have "createCardObjectInstance pm sm parent json forbiddenTypeNames True ci ce sink =
           Inr (Some result, map_option (setShouldFallback True) parent, sink')"
    using assms j
    by (subst createCardObjectInstance.simps) (simp add: instantiateAndParse_def)
  then show ?thesis by (auto simp: setShouldFallback_def)
qed


theorem absent_fallback_propagates_to_parent_witness:
  "parseChildElement
     \<lparr>elementTypeRegistry = ElementTypeRegistry_reset,
      actionTypeRegistry = ActionTypeRegistry_reset, defaultHostCapabilities = [],
      latestVersion = v1_2,
      versionParse = (\<lambda>s. if s = ''1.0'' then Some v1_0 else None),
      cardVersionParse = (\<lambda>j e. (None, e))\<rparr>
     (Some \<lparr>parentShouldFallback = False, parentDesignMode = False, parentHostCapabilities = []\<rparr>)
     (JObj [(''type'', JStr ''Image''), (''requires'', JObj [(''CapX'', JStr ''1.0'')])]) True (Some []) =
   Inr (Some (CardObject Image ((defaultProps Image)\<lparr>requires := [(''CapX'', v1_0)]\<rparr>)
                [] None [] None None),
        Some \<lparr>parentShouldFallback = True, parentDesignMode = False, parentHostCapabilities = []\<rparr>,
        Some [])"
proof -
  let ?env = "\<lparr>elementTypeRegistry = ElementTypeRegistry_reset,
      actionTypeRegistry = ActionTypeRegistry_reset, defaultHostCapabilities = [],
      latestVersion = v1_2,
      versionParse = (\<lambda>s. if s = ''1.0'' then Some v1_0 else None),
      cardVersionParse = (\<lambda>j e. (None, e))\<rparr>"
  let ?p = "Some \<lparr>parentShouldFallback = False, parentDesignMode = False, parentHostCapabilities = []\<rparr>"
  let ?j = "JObj [(''type'', JStr ''Image''), (''requires'', JObj [(''CapX'', JStr ''1.0'')])]"
  let ?r = "CardObject Image ((defaultProps Image)\<lparr>requires := [(''CapX'', v1_0)]\<rparr>) [] None [] None None"
  have 1: "getProp ?j ''type'' = Some (JStr ''Image'')" by simp
  have 2: "''Image'' \<noteq> []" by simp
  have 3: "''Image'' \<notin> set []" by simp
  have 4: "TypeRegistry_createInstance (elementTypeRegistry ?env) ''Image'' = Some (newObject Image)"
    by (simp add: reset_createInstance)
  have 5: "parseObject ?env (newObject Image) ?p ?j (Some []) = Inr (?r, Some [])"
    by (simp add: parseObject.simps SerializableObject_parse_def parseActionProperty_def
          actionProperty_def ActionPropertyDefinition_parse_def isAdaptiveCard_def
          newObject_def defaultProps_def List.map_filter_def fromParent_def asParent_def
          setShouldFallbackFlag_def isDesignMode_def)
  have 6: "elementShouldFallback ?env ?r ?p"
    by (simp add: elementShouldFallback_def shouldFallback_def CardObject_shouldFallback_def
          areAllMet_def hasCapability_def resolveHostCapabilities_def isAdaptiveCard_def)
  have 7: "getProp ?j ''fallback'' = None" by simp
  from absent_fallback_propagates_to_parent [of ?j "''Image''" "[]"
         "\<lambda>n. TypeRegistry_createInstance (elementTypeRegistry ?env) n" "newObject Image"
         "parseObject ?env" ?p "Some []" ?r "Some []" "elementShouldFallback ?env"
         elementValidationError, OF 1 2 3 4 5 6 7]
  show ?thesis
    by (simp add: parseChildElement_def createElementInstance_def setShouldFallback_def)
qed


section \<open>Duplicate ids\<close>


lemma reported_Cons:
  "reported (f # fs) = {(cardObject f, error e) | e. e \<in> set (failureErrors f)} \<union> reported fs"
  by (auto simp: reported_def)

lemma reported_addToFailures:
  "reported (addToFailures fs obj err) = insert (obj, error err) (reported fs)"
proof (induction fs)
  case Nil
  then show ?case by (auto simp: reported_def)
next
  case (Cons f fs)
  show ?case
  proof (cases "cardObject f = obj")
    case True
    then show ?thesis by (auto simp: reported_Cons)
  next
    case False
    then show ?thesis using Cons.IH by (auto simp: reported_Cons)
  qed
qed


lemma dupState_addFailure_other:
  "error err \<noteq> DuplicateId \<Longrightarrow> dupState (addFailure ctx obj err) = dupState ctx"
  by (auto simp: dupState_def addFailure_def reported_addToFailures)

text \<open>The checks that the classes add leave the state of the duplicate check alone.\<close>

lemma dupState_Input_checks [simp]: "dupState (Input_checks p this ctx) = dupState ctx"
  by (simp add: Input_checks_def dupState_addFailure_other)

lemma dupState_ChoiceSetInput_choices [simp]:
  "dupState (ChoiceSetInput_choices cs this ctx) = dupState ctx"
  by (induction cs this ctx rule: ChoiceSetInput_choices.induct)
     (simp_all add: dupState_addFailure_other)

lemma dupState_ChoiceSetInput_checks [simp]:
  "dupState (ChoiceSetInput_checks p this ctx) = dupState ctx"
  by (simp add: ChoiceSetInput_checks_def dupState_addFailure_other)

lemma dupState_OpenUrlAction_checks [simp]:
  "dupState (OpenUrlAction_checks p this ctx) = dupState ctx"
  by (simp add: OpenUrlAction_checks_def dupState_addFailure_other)

lemma dupState_HttpAction_headers [simp]:
  "dupState (HttpAction_headers hs this ctx) = dupState ctx"
  by (induction hs this ctx rule: HttpAction_headers.induct)
     (simp_all add: dupState_addFailure_other)

lemma dupState_HttpAction_checks [simp]:
  "dupState (HttpAction_checks p this ctx) = dupState ctx"
  by (simp add: HttpAction_checks_def dupState_addFailure_other)

lemma dupState_StylableCardElementContainer_checks [simp]:
  "dupState (StylableCardElementContainer_checks hostConfig p this ctx) = dupState ctx"
  by (simp add: StylableCardElementContainer_checks_def dupState_addFailure_other
        split: option.splits)

lemma dupState_ColumnSet_checks [simp]:
  "dupState (ColumnSet_checks columns this ctx) = dupState ctx"
  by (simp add: ColumnSet_checks_def Let_def dupState_addFailure_other)

lemma dupState_AdaptiveCard_checks [simp]:
  "dupState (AdaptiveCard_checks latest versionToString thisCard this ctx) = dupState ctx"
  by (simp add: AdaptiveCard_checks_def Let_def dupState_addFailure_other)

lemma dupState_itemChecks [simp]:
  "dupState (itemChecks hostConfig c item this ctx) = dupState ctx"
  by (simp add: itemChecks_def Let_def dupState_addFailure_other)

lemma dupState_actionCollectionChecks [simp]:
  "dupState (actionCollectionChecks hostConfig n owner ctx) = dupState ctx"
  by (simp add: actionCollectionChecks_def Let_def dupState_addFailure_other)

lemma dupState_actionChecks [simp]:
  "dupState (actionChecks c item owner ctx) = dupState ctx"
  by (simp add: actionChecks_def dupState_addFailure_other)

text \<open>The duplicate-id check is one step of the fold, and the pass over an object is the
  fold over the objects it visits.\<close>

lemma dupResult_simps [simp]:
  "dupResult (Inl e) = Inl e"
  "dupResult (Inr c) = Inr (dupState c)"
  by (simp_all add: dupResult_def)


lemma foldl_idStep_Inl [simp]: "foldl idStep (Inl e) xs = Inl e"
  by (induction xs) simp_all


















section \<open>Parsing a container: the non-standalone child\<close>

lemma fromParent_asParent [simp]: "fromParent this (Some (asParent env this parent)) = this"
  by (cases this) (simp add: fromParent_def asParent_def setShouldFallbackFlag_def)

lemma parseActionProperty_absent:
  assumes "getProp json ''selectAction'' = None" and "getProp json ''inlineAction'' = None"
  shows "parseActionProperty pm env this parent json sink =
           Inr (if actionProperty (cls this) = None then this else setSelectAction this None, sink)"
proof -
  from assms have "map_of (propertyBag json) ''selectAction'' = None"
    "map_of (propertyBag json) ''inlineAction'' = None"
    by (cases json; simp)+
  then show ?thesis
    by (auto simp: parseActionProperty_def ActionPropertyDefinition_parse_def actionProperty_def)
qed

lemma parseObject_TextRun_plain:
  "parseObject env (newObject TextRun) parent (JObj [(''type'', JStr ''TextRun'')]) sink =
     Inr (newObject TextRun, sink)"
  by (simp add: parseObject.simps SerializableObject_parse_def parseActionProperty_absent
        actionProperty_def isAdaptiveCard_def newObject_def defaultProps_def)

lemma not_shouldFallback_new: "\<not> elementShouldFallback env (newObject c) parent" if "\<not> isAdaptiveCard c"
  using that
  by (simp add: elementShouldFallback_def shouldFallback_def CardObject_shouldFallback_def
        areAllMet_def newObject_def defaultProps_def)

text \<open>
  Claim C3, at the input {"type":"Container","items":[{"type":"TextRun"}]}: with the
  built-in registry, parsing it as an element throws. The TextRun child is instantiated and
  parsed, and \<^verbatim>\<open>Container.insertItemAt\<close> then rejects it because it is not a standalone
  element; the exception leaves \<^verbatim>\<open>createElementInstance\<close>.
\<close>

theorem container_parse_throws_on_TextRun_item:
  "parseChildElement
     \<lparr>elementTypeRegistry = ElementTypeRegistry_reset, actionTypeRegistry = actions,
      defaultHostCapabilities = caps, latestVersion = latest, versionParse = vp,
      cardVersionParse = cvp\<rparr>
     parent
     (JObj [(''type'', JStr ''Container''), (''items'', JArr [JObj [(''type'', JStr ''TextRun'')]])])
     allowFallback sink =
   Inl (Error ''Elements of type TextRun cannot be used as standalone elements.'')"
proof -
  let ?env = "\<lparr>elementTypeRegistry = ElementTypeRegistry_reset, actionTypeRegistry = actions,
      defaultHostCapabilities = caps, latestVersion = latest, versionParse = vp,
      cardVersionParse = cvp\<rparr>"
  let ?c = "newObject (Container [])"
  have child: "createElementInstance (parseObject ?env) (elementShouldFallback ?env)
                 ElementTypeRegistry_reset (Some (asParent ?env ?c parent))
                 (JObj [(''type'', JStr ''TextRun'')]) (\<not> isDesignMode ?c parent) sink =
               Inr (Some (newObject TextRun), Some (asParent ?env ?c parent), sink)"
    unfolding createElementInstance_def
    by (subst createCardObjectInstance.simps)
       (simp add: instantiateAndParse_def reset_createInstance parseObject_TextRun_plain
          not_shouldFallback_new isAdaptiveCard_def)
  have items: "Container_parseItems (parseObject ?env) ?env ?c parent
                 [JObj [(''type'', JStr ''TextRun'')]] sink =
               Inl (Error ''Elements of type TextRun cannot be used as standalone elements.'')"
    using child
    by (simp add: insertItemAt_def isStandalone_def newObject_def)
  have self: "parseObject ?env (newObject (Container [])) parent
                (JObj [(''type'', JStr ''Container''), (''items'', JArr [JObj [(''type'', JStr ''TextRun'')]])])
                sink =
              Inl (Error ''Elements of type TextRun cannot be used as standalone elements.'')"
    using items
    by (simp add: parseObject.simps Container_parse_def SerializableObject_parse_def
          parseActionProperty_absent actionProperty_def isAdaptiveCard_def
          isCardElementContainer_def isStylableCardElementContainer_def isSelectable_def
          getItemsCollectionPropertyName_def Container_clear_def setShouldFallbackFlag_def
          newObject_def defaultProps_def)
  show ?thesis
    unfolding parseChildElement_def createElementInstance_def
    by (subst createCardObjectInstance.simps)
       (simp add: instantiateAndParse_def reset_createInstance self)
qed

section \<open>shouldFallback and the version check\<close>

text \<open>
  Claim C4, as stated, at an AdaptiveCard of version 1.3 where the latest supported version
  is 1.2, with no explicit flag and no requirements: shouldFallback() is true although the
  card is not flagged and all its capability requirements are met.
\<close>

theorem shouldFallback_counterexample:
  "shouldFallback v1_2 []
     (setProps (newObject AdaptiveCard)
        ((defaultProps AdaptiveCard)\<lparr>versionValue := Some \<lparr>major = 1, minor = 3, isValid = True\<rparr>\<rparr>)) \<and>
   \<not> shouldFallbackFlag
       (props (setProps (newObject AdaptiveCard)
          ((defaultProps AdaptiveCard)\<lparr>versionValue := Some \<lparr>major = 1, minor = 3, isValid = True\<rparr>\<rparr>))) \<and>
   areAllMet
     (requires
        (props (setProps (newObject AdaptiveCard)
           ((defaultProps AdaptiveCard)\<lparr>versionValue := Some \<lparr>major = 1, minor = 3, isValid = True\<rparr>\<rparr>))))
     []"
  by (simp add: shouldFallback_def AdaptiveCard_shouldFallback_def CardObject_shouldFallback_def
        isVersionSupported_def bypassVersionCheck_def areAllMet_def newObject_def
        defaultProps_def isAdaptiveCard_def v1_2_def)

text \<open>
  Claim C4, amended. For every card object that is not an AdaptiveCard, shouldFallback() is
  true if and only if the object's should-fallback flag is set or its capability
  requirements are not all met by the host's capability set; for an AdaptiveCard it is true
  if and only if one of these holds or the card's version is not supported. In particular,
  an object that requires a capability the host does not list reports shouldFallback() with
  no flag set.
\<close>

theorem shouldFallback_iff_flag_or_unmet_requirement:
  "(\<not> isAdaptiveCard (cls obj) \<longrightarrow>
      (shouldFallback latest hostCaps obj \<longleftrightarrow>
         shouldFallbackFlag (props obj) \<or> \<not> areAllMet (requires (props obj)) hostCaps)) \<and>
   (isAdaptiveCard (cls obj) \<longrightarrow>
      (shouldFallback latest hostCaps obj \<longleftrightarrow>
         shouldFallbackFlag (props obj) \<or> \<not> areAllMet (requires (props obj)) hostCaps \<or>
         \<not> isVersionSupported latest obj)) \<and>
   ((name, v) \<in> set (requires (props obj)) \<and> map_of hostCaps name = None \<longrightarrow>
      shouldFallback latest hostCaps obj)"
proof -
  have "\<not> areAllMet (requires (props obj)) hostCaps"
    if "(name, v) \<in> set (requires (props obj))" "map_of hostCaps name = None"
    unfolding areAllMet_def list_all_iff
    using that by (intro notI) (drule bspec [where x = "(name, v)"], simp_all add: hasCapability_def)
  then show ?thesis
    by (auto simp: shouldFallback_def AdaptiveCard_shouldFallback_def CardObject_shouldFallback_def)
qed

theorem shouldFallback_iff_flag_or_unmet_requirement_witness:
  "(''CapX'', v1_0) \<in>
      set (requires (props (setProps (newObject TextBlock)
                              ((defaultProps TextBlock)\<lparr>requires := [(''CapX'', v1_0)]\<rparr>)))) \<and>
   map_of [(''CapY'', v1_0)] ''CapX'' = None \<and>
   \<not> shouldFallbackFlag (props (setProps (newObject TextBlock)
                              ((defaultProps TextBlock)\<lparr>requires := [(''CapX'', v1_0)]\<rparr>))) \<and>
   shouldFallback v1_2 [(''CapY'', v1_0)]
     (setProps (newObject TextBlock) ((defaultProps TextBlock)\<lparr>requires := [(''CapX'', v1_0)]\<rparr>))"
proof -
  let ?obj = "setProps (newObject TextBlock) ((defaultProps TextBlock)\<lparr>requires := [(''CapX'', v1_0)]\<rparr>)"
  have 1: "(''CapX'', v1_0) \<in> set (requires (props ?obj))"
    by (simp add: newObject_def defaultProps_def)
  have 2: "map_of [(''CapY'', v1_0)] ''CapX'' = None" by simp
  have 3: "\<not> shouldFallbackFlag (props ?obj)"
    by (simp add: newObject_def defaultProps_def)
  from shouldFallback_iff_flag_or_unmet_requirement
         [of ?obj v1_2 "[(''CapY'', v1_0)]" "''CapX''" v1_0,
          THEN conjunct2, THEN conjunct2, THEN mp, OF conjI, OF 1 2] 1 2 3
  show ?thesis by (intro conjI)
qed

lemma addToFailures_reports:
  "list_ex (\<lambda>f. cardObject f = obj \<and> list_ex (\<lambda>e. error e = error err) (failureErrors f))
     (addToFailures fs obj err)"
  by (induction fs) auto

lemma addFailure_reports: "reportsFailure (addFailure ctx obj err) obj (error err)"
  by (simp add: reportsFailure_def addFailure_def addToFailures_reports)

lemma AdaptiveCard_checks_unsupported:
  assumes "cls thisCard = AdaptiveCard" and "versionValue (props thisCard) = Some v"
    and "major latest < major v \<or> (major latest = major v \<and> minor latest < minor v)"
  shows "reportsFailure (AdaptiveCard_checks latest versionToString thisCard this ctx)
           this UnsupportedCardVersion"
proof -
  from assms have u: "\<not> isVersionSupported latest thisCard"
    by (auto simp: isVersionSupported_def bypassVersionCheck_def)
  show ?thesis
    unfolding AdaptiveCard_checks_def Let_def
    using assms(1,2) u
      addFailure_reports [where err = "\<lparr>error = UnsupportedCardVersion, message = m\<rparr>" for m]
    by (simp add: bypassVersionCheck_def)
qed

lemma AdaptiveCard_validation_ends_with_checks:
  assumes "cls thisCard = AdaptiveCard"
    and "internalValidateProperties latest versionToString hostConfig thisCard this ctx = Inr results"
  shows "\<exists>ctx'. results = AdaptiveCard_checks latest versionToString thisCard this ctx'"
proof (cases thisCard)
  case (CardObject c p its sa acts ic fc)
  with assms(1) have c: "c = AdaptiveCard" by simp
  let ?V = "internalValidateProperties latest versionToString hostConfig"
  have e: "?V (CardObject AdaptiveCard p its sa acts ic fc) this ctx =
      (case CardObject_internalValidateProperties (idValue p) this ctx of
         Inl e \<Rightarrow> Inl e
       | Inr context0 \<Rightarrow>
           (case validateItems latest versionToString hostConfig AdaptiveCard this 0 its context0 of
              Inl e \<Rightarrow> Inl e
            | Inr context1 \<Rightarrow>
                (case (case sa of
                         None \<Rightarrow> Inr context1
                       | Some action \<Rightarrow> ?V action (this @ [SelectActionOf]) context1) of
                   Inl e \<Rightarrow> Inl e
                 | Inr context2 \<Rightarrow>
                     (case validateActions latest versionToString hostConfig AdaptiveCard this 0 acts
                             (actionCollectionChecks hostConfig (length acts) this
                                (StylableCardElementContainer_checks hostConfig p this context2)) of
                        Inl e \<Rightarrow> Inl e
                      | Inr context4 \<Rightarrow>
                          Inr (AdaptiveCard_checks latest versionToString
                                 (CardObject AdaptiveCard p its sa acts ic fc) this context4)))))"
    by (simp add: isInput_def isCardElementContainer_def isStylableCardElementContainer_def
          isAdaptiveCard_def Let_def cong: sum.case_cong)
  from assms(2) show ?thesis
    unfolding CardObject c e
    by (auto split: sum.splits)
qed

text \<open>
  Claim C9. An AdaptiveCard whose parsed version is later than the latest supported one, by
  major then minor, reports shouldFallback(), and every report that validateProperties()
  returns for it holds an UnsupportedCardVersion failure attached to the card. But
  validateProperties() need not return: for such a card whose body holds an element with
  the id "hasOwnProperty" followed by an element with the id "x" it throws a TypeError out
  of the duplicate-id check of the second element, and reports nothing.
\<close>

theorem unsupported_version_validation_throws_on_hasOwnProperty_id:
  "(cls thisCard = AdaptiveCard \<and> versionValue (props thisCard) = Some v \<and>
    (major latest < major v \<or> (major latest = major v \<and> minor latest < minor v)) \<longrightarrow>
      shouldFallback latest hostCaps thisCard \<and>
      (\<forall>results. validateProperties latest versionToString hostConfig thisCard = Inr results \<longrightarrow>
         reportsFailure results [] UnsupportedCardVersion)) \<and>
   validateProperties latest versionToString hostConfig
     (setItems
        (setProps (newObject AdaptiveCard)
           ((defaultProps AdaptiveCard)
              \<lparr>versionValue := Some \<lparr>major = Suc (major latest), minor = 0, isValid = True\<rparr>\<rparr>))
        [setProps (newObject TextBlock) ((defaultProps TextBlock)\<lparr>idValue := Some ''hasOwnProperty''\<rparr>),
         setProps (newObject TextBlock) ((defaultProps TextBlock)\<lparr>idValue := Some ''x''\<rparr>)]) =
     Inl TypeError"
proof -
  have a: "shouldFallback latest hostCaps thisCard"
    if "cls thisCard = AdaptiveCard" "versionValue (props thisCard) = Some v"
       "major latest < major v \<or> (major latest = major v \<and> minor latest < minor v)"
    using that
    by (auto simp: shouldFallback_def AdaptiveCard_shouldFallback_def isAdaptiveCard_def
          isVersionSupported_def bypassVersionCheck_def)
  have b: "reportsFailure results [] UnsupportedCardVersion"
    if "cls thisCard = AdaptiveCard" "versionValue (props thisCard) = Some v"
       "major latest < major v \<or> (major latest = major v \<and> minor latest < minor v)"
       "validateProperties latest versionToString hostConfig thisCard = Inr results"
    for results
  proof -
    from AdaptiveCard_validation_ends_with_checks [OF that(1) that(4) [unfolded validateProperties_def]]
    obtain ctx' where "results = AdaptiveCard_checks latest versionToString thisCard [] ctx'" ..
    with AdaptiveCard_checks_unsupported [OF that(1-3)] show ?thesis by simp
  qed
  have c: "validateProperties latest versionToString hostConfig
     (setItems
        (setProps (newObject AdaptiveCard)
           ((defaultProps AdaptiveCard)
              \<lparr>versionValue := Some \<lparr>major = Suc (major latest), minor = 0, isValid = True\<rparr>\<rparr>))
        [setProps (newObject TextBlock) ((defaultProps TextBlock)\<lparr>idValue := Some ''hasOwnProperty''\<rparr>),
         setProps (newObject TextBlock) ((defaultProps TextBlock)\<lparr>idValue := Some ''x''\<rparr>)]) =
     Inl TypeError"
    by (simp add: validateProperties_def newValidationResults_def newObject_def defaultProps_def
          CardObject_internalValidateProperties_def isInput_def isCardElementContainer_def
          isStylableCardElementContainer_def isAdaptiveCard_def itemChecks_def
          isInteractive_def isElementAllowed_def)
  from a b c show ?thesis by blast
qed

theorem unsupported_version_validation_throws_on_hasOwnProperty_id_witness:
  "cls (setProps (newObject AdaptiveCard)
          ((defaultProps AdaptiveCard)\<lparr>versionValue := Some \<lparr>major = 1, minor = 3, isValid = True\<rparr>\<rparr>)) =
     AdaptiveCard \<and>
   versionValue (props (setProps (newObject AdaptiveCard)
          ((defaultProps AdaptiveCard)\<lparr>versionValue := Some \<lparr>major = 1, minor = 3, isValid = True\<rparr>\<rparr>))) =
     Some \<lparr>major = 1, minor = 3, isValid = True\<rparr> \<and>
   shouldFallback v1_2 []
     (setProps (newObject AdaptiveCard)
        ((defaultProps AdaptiveCard)\<lparr>versionValue := Some \<lparr>major = 1, minor = 3, isValid = True\<rparr>\<rparr>)) \<and>
   (\<exists>results.
      validateProperties v1_2 (\<lambda>v. ''?'')
        \<lparr>supportsInteractivity = True, maxActions = 5, hostCapabilities = [], containerStyles = []\<rparr>
        (setProps (newObject AdaptiveCard)
           ((defaultProps AdaptiveCard)\<lparr>versionValue := Some \<lparr>major = 1, minor = 3, isValid = True\<rparr>\<rparr>)) =
        Inr results \<and>
      reportsFailure results [] UnsupportedCardVersion)"
proof -
  let ?card = "setProps (newObject AdaptiveCard)
          ((defaultProps AdaptiveCard)\<lparr>versionValue := Some \<lparr>major = 1, minor = 3, isValid = True\<rparr>\<rparr>)"
  let ?hc = "\<lparr>supportsInteractivity = True, maxActions = 5, hostCapabilities = [], containerStyles = []\<rparr>"
  have 1: "cls ?card = AdaptiveCard" by (simp add: newObject_def)
  have 2: "versionValue (props ?card) = Some \<lparr>major = 1, minor = 3, isValid = True\<rparr>"
    by (simp add: newObject_def)
  have 3: "major v1_2 < major \<lparr>major = 1, minor = 3, isValid = True\<rparr> \<or>
           (major v1_2 = major \<lparr>major = 1, minor = 3, isValid = True\<rparr> \<and>
            minor v1_2 < minor \<lparr>major = 1, minor = 3, isValid = True\<rparr>)"
    by (simp add: v1_2_def)
  obtain results where r: "validateProperties v1_2 (\<lambda>v. ''?'') ?hc ?card = Inr results"
    by (simp add: validateProperties_def newValidationResults_def newObject_def defaultProps_def
          CardObject_internalValidateProperties_def isInput_def isCardElementContainer_def
          isStylableCardElementContainer_def isAdaptiveCard_def Let_def)
  from unsupported_version_validation_throws_on_hasOwnProperty_id
         [of ?card "\<lparr>major = 1, minor = 3, isValid = True\<rparr>" v1_2 "[]" "\<lambda>v. ''?''" ?hc,
          THEN conjunct1, THEN mp, OF conjI [OF 1 conjI [OF 2 3]]] r
  have "shouldFallback v1_2 [] ?card" "reportsFailure results [] UnsupportedCardVersion"
    by blast+
  with 1 2 r show ?thesis by blast
qed

section \<open>Forbidden element types\<close>

lemma createElementInstance_kept:
  assumes "getProp json ''type'' = Some (JStr name)" and "name \<noteq> []"
    and "TypeRegistry_createInstance reg name = Some inst"
    and "pm inst parent json sink = Inr (result, sink')"
    and "\<not> sm result parent"
  shows "createElementInstance pm sm reg parent json allowFallback sink =
           Inr (Some result, parent, sink')"
proof -
  from assms(1) have "truthy json" "typeofObject json" by (cases json; simp)+
  with assms show ?thesis
    unfolding createElementInstance_def
    by (subst createCardObjectInstance.simps) (simp add: instantiateAndParse_def)
qed

lemma parseObject_Image_plain:
  "parseObject env (newObject Image) parent
     (JObj [(''type'', JStr ''Image''), (''fallback'', fb)]) sink =
   Inr (newObject Image, sink)"
  by (simp add: parseObject.simps SerializableObject_parse_def parseActionProperty_absent
        actionProperty_def isAdaptiveCard_def newObject_def defaultProps_def)

lemma parse_container_with_image:
  assumes "TypeRegistry_createInstance (elementTypeRegistry env) ''Image'' = Some (newObject Image)"
  shows "parseObject env (newObject (Container ts)) parent
           (JObj [(''type'', JStr ''Container''),
                  (''items'', JArr [JObj [(''type'', JStr ''Image''), (''fallback'', JObj fb)]])])
           sink =
         Inr (setItems (newObject (Container ts)) [newObject Image], sink)"
proof -
  let ?c = "newObject (Container ts)"
  let ?img = "JObj [(''type'', JStr ''Image''), (''fallback'', JObj fb)]"
  let ?p = "Some (asParent env ?c parent)"
  have child: "createElementInstance (parseObject env) (elementShouldFallback env)
                 (elementTypeRegistry env) ?p ?img (\<not> isDesignMode ?c parent) sink =
               Inr (Some (newObject Image), ?p, sink)"
    by (rule createElementInstance_kept [where name = "''Image''" and inst = "newObject Image"])
       (simp_all add: assms parseObject_Image_plain not_shouldFallback_new isAdaptiveCard_def)
  have items: "Container_parseItems (parseObject env) env ?c parent [?img] sink =
               Inr (setItems ?c [newObject Image], sink)"
    using child
    by (simp add: insertItemAt_def isStandalone_def isAdaptiveCard_def)
       (simp add: newObject_def)
  show ?thesis
    using items
    by (simp add: parseObject.simps Container_parse_def SerializableObject_parse_def
          parseActionProperty_absent actionProperty_def isAdaptiveCard_def
          isCardElementContainer_def isStylableCardElementContainer_def isSelectable_def
          getItemsCollectionPropertyName_def Container_clear_def setShouldFallbackFlag_def
          newObject_def defaultProps_def)
qed

text \<open>
  Claim C8, as stated, at a container class that forbids "Image" and the child
  {"type":"Image","fallback":{"type":"TextBlock"}}: the parse output holds the Image.
\<close>

theorem forbidden_element_type_counterexample:
  "parseChildElement
     \<lparr>elementTypeRegistry =
        registerType ElementTypeRegistry_reset ''Container''
          (\<lambda>_. newObject (Container [''Image''])) AnyVersion,
      actionTypeRegistry = ActionTypeRegistry_reset,
      defaultHostCapabilities = [], latestVersion = v1_2, versionParse = (\<lambda>s. None),
      cardVersionParse = (\<lambda>j e. (None, e))\<rparr>
     None
     (JObj [(''type'', JStr ''Container''),
            (''items'', JArr [JObj [(''type'', JStr ''Image''),
                                    (''fallback'', JObj [(''type'', JStr ''TextBlock'')])]])])
     True (Some []) =
   Inr (Some (setItems (newObject (Container [''Image''])) [newObject Image]), None, Some [])"
proof -
  let ?reg = "registerType ElementTypeRegistry_reset ''Container''
          (\<lambda>_. newObject (Container [''Image''])) AnyVersion"
  let ?env = "\<lparr>elementTypeRegistry = ?reg, actionTypeRegistry = ActionTypeRegistry_reset,
      defaultHostCapabilities = [], latestVersion = v1_2, versionParse = (\<lambda>s. None),
      cardVersionParse = (\<lambda>j e. (None, e))\<rparr>"
  have r1: "TypeRegistry_createInstance (elementTypeRegistry ?env) ''Image'' = Some (newObject Image)"
    by (simp add: ElementTypeRegistry_reset_def registerType_def clear_def
          TypeRegistry_createInstance_def)
  have r2: "TypeRegistry_createInstance (elementTypeRegistry ?env) ''Container'' =
              Some (newObject (Container [''Image'']))"
    by (simp add: ElementTypeRegistry_reset_def registerType_def clear_def
          TypeRegistry_createInstance_def)
  have nf: "\<not> elementShouldFallback ?env (setItems (newObject (Container [''Image''])) [newObject Image]) None"
    by (simp add: elementShouldFallback_def shouldFallback_def CardObject_shouldFallback_def
          areAllMet_def newObject_def defaultProps_def isAdaptiveCard_def)
  show ?thesis
    unfolding parseChildElement_def
    by (rule createElementInstance_kept
          [where name = "''Container''" and inst = "newObject (Container [''Image''])"])
       (simp_all only: r2 parse_container_with_image [OF r1] nf
          getProp.simps map_of.simps fst_conv snd_conv list.simps not_False_eq_True, simp_all)
qed

text \<open>
  Claim C8, amended. When a container whose forbidden element types include "Image" parses
  a child node of type "Image" that carries an object-valued "fallback" and no "id",
  "requires" or "selectAction", with "Image" registered as the Image class, the parse
  output holds the Image element itself: the instantiation of elements is given an empty
  forbidden list, and the fallback is not consulted. The prohibition is reported by the
  validation pass, as an InteractivityNotAllowed failure attached to the container.
\<close>

theorem forbidden_element_type_is_parsed_and_reported_by_validation:
  assumes "TypeRegistry_createInstance (elementTypeRegistry env) ''Image'' = Some (newObject Image)"
    and "''Image'' \<in> set ts"
  shows "parseObject env (newObject (Container ts)) parent
           (JObj [(''type'', JStr ''Container''),
                  (''items'', JArr [JObj [(''type'', JStr ''Image''), (''fallback'', JObj fb)]])])
           sink =
         Inr (setItems (newObject (Container ts)) [newObject Image], sink) \<and>
         internalValidateProperties latest versionToString hostConfig
            (setItems (newObject (Container ts)) [newObject Image]) this newValidationResults =
           Inr \<lparr>allIds = Map.empty,
                failures =
                  [\<lparr>cardObject = this,
                    failureErrors =
                      [\<lparr>error = InteractivityNotAllowed,
                        message = ''Elements of type Image are not allowed in this container.''\<rparr>]\<rparr>]\<rparr>"
proof -
  have v: "internalValidateProperties latest versionToString hostConfig
            (setItems (newObject (Container ts)) [newObject Image]) this newValidationResults =
           Inr \<lparr>allIds = Map.empty,
                failures =
                  [\<lparr>cardObject = this,
                    failureErrors =
                      [\<lparr>error = InteractivityNotAllowed,
                        message = ''Elements of type Image are not allowed in this container.''\<rparr>]\<rparr>]\<rparr>"
    using assms(2)
    by (simp add: newObject_def defaultProps_def CardObject_internalValidateProperties_def
          newValidationResults_def isInput_def isCardElementContainer_def
          isStylableCardElementContainer_def isAdaptiveCard_def itemChecks_def
          isInteractive_def isElementAllowed_def addFailure_def
          StylableCardElementContainer_checks_def)
  from parse_container_with_image [OF assms(1)] v show ?thesis by simp
qed

theorem forbidden_element_type_is_parsed_and_reported_by_validation_witness:
  "parseObject
     \<lparr>elementTypeRegistry = ElementTypeRegistry_reset,
      actionTypeRegistry = ActionTypeRegistry_reset, defaultHostCapabilities = [],
      latestVersion = v1_2, versionParse = (\<lambda>s. None), cardVersionParse = (\<lambda>j e. (None, e))\<rparr>
     (newObject (Container [''Image''])) None
     (JObj [(''type'', JStr ''Container''),
            (''items'', JArr [JObj [(''type'', JStr ''Image''),
                                    (''fallback'', JObj [(''type'', JStr ''TextBlock'')])]])])
     (Some []) =
   Inr (setItems (newObject (Container [''Image''])) [newObject Image], Some []) \<and>
   internalValidateProperties v1_2 (\<lambda>v. ''?'')
      \<lparr>supportsInteractivity = True, maxActions = 0, hostCapabilities = [], containerStyles = []\<rparr>
      (setItems (newObject (Container [''Image''])) [newObject Image]) [] newValidationResults =
     Inr \<lparr>allIds = Map.empty,
          failures =
            [\<lparr>cardObject = [],
              failureErrors =
                [\<lparr>error = InteractivityNotAllowed,
                  message = ''Elements of type Image are not allowed in this container.''\<rparr>]\<rparr>]\<rparr>"
proof -
  have 1: "TypeRegistry_createInstance
             (elementTypeRegistry \<lparr>elementTypeRegistry = ElementTypeRegistry_reset,
                actionTypeRegistry = ActionTypeRegistry_reset, defaultHostCapabilities = [],
                latestVersion = v1_2, versionParse = (\<lambda>s. None),
                cardVersionParse = (\<lambda>j e. (None, e))\<rparr>) ''Image'' =
           Some (newObject Image)"
    by (simp add: reset_createInstance)
  have 2: "''Image'' \<in> set [''Image'']" by simp
  show ?thesis
    by (rule forbidden_element_type_is_parsed_and_reported_by_validation [OF 1 2])
qed

section \<open>Type registries: one registration per name\<close>

lemma find_None_iff: "findTypeRegistration items name = None \<longleftrightarrow> name \<notin> set (map typeName items)"
  by (induction items) auto

lemma find_typeName: "findTypeRegistration items name = Some r \<Longrightarrow> typeName r = name"
  by (induction items) (auto split: if_splits)

lemma names_setCreateInstance: "map typeName (setCreateInstance items name f) = map typeName items"
  by (induction items) auto

lemma versions_setCreateInstance: "map schemaVersion (setCreateInstance items name f) = map schemaVersion items"
  by (induction items) auto

lemma find_setCreateInstance:
  "findTypeRegistration (setCreateInstance items name f) n =
     (if n = name then map_option (\<lambda>r. r\<lparr>createInstance := f\<rparr>) (findTypeRegistration items name)
      else findTypeRegistration items n)"
  by (induction items) auto

lemma find_append:
  "findTypeRegistration (xs @ ys) n =
     (case findTypeRegistration xs n of Some r \<Rightarrow> Some r | None \<Rightarrow> findTypeRegistration ys n)"
  by (induction xs) auto

lemma factoryOf_registerType: "factoryOf (registerType items name f sv) = (factoryOf items)(name \<mapsto> f)"
  by (rule ext) (auto simp: factoryOf_def registerType_def find_setCreateInstance find_append split: option.splits)

lemma distinct_registerType:
  "distinct (map typeName items) \<Longrightarrow> distinct (map typeName (registerType items name f sv))"
  by (auto simp: registerType_def names_setCreateInstance find_None_iff split: option.splits)

lemma names_unregisterType: "set (map typeName (unregisterType items name)) \<subseteq> set (map typeName items)"
  by (induction items) auto

lemma distinct_unregisterType:
  "distinct (map typeName items) \<Longrightarrow> distinct (map typeName (unregisterType items name))"
proof (induction items)
  case Nil
  then show ?case by simp
next
  case (Cons item items)
  from names_unregisterType [of items name]
  have "typeName item \<notin> set (map typeName items) \<Longrightarrow>
        typeName item \<notin> set (map typeName (unregisterType items name))"
    by blast
  with Cons show ?case by simp
qed

lemma find_unregisterType:
  "distinct (map typeName items) \<Longrightarrow>
   findTypeRegistration (unregisterType items name) n =
     (if n = name then None else findTypeRegistration items n)"
  by (induction items) (auto simp: find_None_iff)

lemma factoryOf_unregisterType:
  "distinct (map typeName items) \<Longrightarrow> factoryOf (unregisterType items name) = (factoryOf items)(name := None)"
  by (rule ext) (simp add: factoryOf_def find_unregisterType)

lemma applyCall_invariant:
  "distinct (map typeName items) \<Longrightarrow>
   distinct (map typeName (applyCall items call)) \<and>
   factoryOf (applyCall items call) = recordCall (factoryOf items) call"
  by (cases call) (simp_all add: distinct_registerType factoryOf_registerType distinct_unregisterType factoryOf_unregisterType)

lemma foldl_applyCall_invariant:
  "distinct (map typeName items) \<Longrightarrow>
   distinct (map typeName (foldl applyCall items calls)) \<and>
   factoryOf (foldl applyCall items calls) = foldl recordCall (factoryOf items) calls"
proof (induction calls arbitrary: items)
  case Nil
  then show ?case by simp
next
  case (Cons call calls)
  from applyCall_invariant [OF Cons.prems, of call] Cons.IH [of "applyCall items call"]
  show ?case by simp
qed

lemma createInstance_factoryOf:
  "TypeRegistry_createInstance items name = map_option (\<lambda>f. f ()) (factoryOf items name)"
  by (simp add: TypeRegistry_createInstance_def factoryOf_def split: option.splits)

text \<open>
  Claim C10. After any sequence of registerType and unregisterType calls on a registry that
  starts empty, no two registrations have the same type name, and createInstance(name)
  returns what the factory most recently registered for the name produces, or nothing when
  the name is not registered. Registering a name that is already registered keeps the
  array's names and schema versions as they are and replaces the factory.
\<close>

theorem registry_one_registration_per_name:
  "distinct (map typeName (applyCalls clear calls)) \<and>
   TypeRegistry_createInstance (applyCalls clear calls) name =
     map_option (\<lambda>f. f ()) (latestFactory calls name) \<and>
   (findTypeRegistration items name \<noteq> None \<longrightarrow>
      map typeName (registerType items name f sv) = map typeName items \<and>
      map schemaVersion (registerType items name f sv) = map schemaVersion items \<and>
      TypeRegistry_createInstance (registerType items name f sv) name = Some (f ()))"
proof -
  have e: "factoryOf (clear :: 'a TypeRegistry) = Map.empty"
    by (rule ext) (simp add: factoryOf_def clear_def)
  have "distinct (map typeName (clear :: 'a TypeRegistry))" by (simp add: clear_def)
  from foldl_applyCall_invariant [OF this, of calls]
  have d: "distinct (map typeName (applyCalls clear calls))"
    and f: "factoryOf (applyCalls clear calls) = latestFactory calls"
    by (simp_all add: applyCalls_def latestFactory_def e)
  have "TypeRegistry_createInstance (registerType items name f sv) name = Some (f ())"
    by (simp add: createInstance_factoryOf factoryOf_registerType)
  with d f show ?thesis
    by (auto simp: createInstance_factoryOf registerType_def names_setCreateInstance versions_setCreateInstance)
qed

theorem registry_one_registration_per_name_witness:
  "distinct (map typeName (applyCalls clear
      [RegisterType ''A'' (\<lambda>_. 1::nat) AnyVersion, RegisterType ''B'' (\<lambda>_. 2) AnyVersion,
       RegisterType ''A'' (\<lambda>_. 3) AnyVersion, UnregisterType ''B''])) \<and>
   TypeRegistry_createInstance (applyCalls clear
      [RegisterType ''A'' (\<lambda>_. 1::nat) AnyVersion, RegisterType ''B'' (\<lambda>_. 2) AnyVersion,
       RegisterType ''A'' (\<lambda>_. 3) AnyVersion, UnregisterType ''B'']) ''A'' = Some 3 \<and>
   findTypeRegistration
      [\<lparr>typeName = ''A'', schemaVersion = AnyVersion, createInstance = (\<lambda>_. 1::nat)\<rparr>] ''A'' \<noteq> None \<and>
   map typeName (registerType
      [\<lparr>typeName = ''A'', schemaVersion = AnyVersion, createInstance = (\<lambda>_. 1::nat)\<rparr>]
      ''A'' (\<lambda>_. 3) AnyVersion) = [''A'']"
proof -
  let ?calls = "[RegisterType ''A'' (\<lambda>_. 1::nat) AnyVersion, RegisterType ''B'' (\<lambda>_. 2) AnyVersion,
       RegisterType ''A'' (\<lambda>_. 3) AnyVersion, UnregisterType ''B'']"
  let ?items = "[\<lparr>typeName = ''A'', schemaVersion = AnyVersion, createInstance = (\<lambda>_. 1::nat)\<rparr>]"
  have h: "findTypeRegistration ?items ''A'' \<noteq> None" by simp
  have l: "latestFactory ?calls ''A'' = Some (\<lambda>_. 3)" by (simp add: latestFactory_def)
  have n: "map typeName ?items = [''A'']" by simp
  note t = registry_one_registration_per_name [of ?calls "''A''" ?items "\<lambda>_. 3" AnyVersion]
  note a = t [THEN conjunct1]
  note b = t [THEN conjunct2, THEN conjunct1]
  note c = t [THEN conjunct2, THEN conjunct2, THEN mp, OF h, THEN conjunct1]
  have b': "TypeRegistry_createInstance (applyCalls clear ?calls) ''A'' = Some 3"
    by (simp only: b l option.map)
  have c': "map typeName (registerType ?items ''A'' (\<lambda>_. 3) AnyVersion) = [''A'']"
    by (simp only: c n)
  from a b' h c' show ?thesis by (intro conjI)
qed


end
